theory Spec2Isabelle
  imports Main "HOL-Library.Sublist"
begin

section \<open>Python values\<close>

text \<open>
  The program of \<^verbatim>\<open>glue_metadata_crawler.py\<close> works on the dynamically typed documents
  that the catalog client and \<^verbatim>\<open>json.load\<close> return: \<^verbatim>\<open>None\<close>, booleans, integers,
  strings, byte strings, datetimes, lists and dictionaries. Floats, tuples, sets and
  user-defined objects do not occur in such documents and are left out. Strings are
  lists of 8-bit characters; a character stands for the code point of the same number.
\<close>

record datetime =
  year :: nat
  month :: nat
  day :: nat
  hour :: nat
  minute :: nat
  second :: nat
  microsecond :: nat
  utcoffset :: "int option"  \<comment> \<open>seconds east of UTC; \<open>None\<close> for a naive datetime\<close>

text \<open>Dictionary keys are the hashable values.\<close>

datatype pykey = KNone | KBool bool | KInt int | KStr string | KBytes string | KDatetime datetime

datatype pyval = PNone | PBool bool | PInt int | PStr string | PBytes string
  | PDatetime datetime | PList "pyval list" | PDict "(pykey \<times> pyval) list"

datatype py_error =
    TypeError string
  | KeyError pykey
  | AttributeError string
  | ValueError string
  | IndexError string
  | OSError string
  | JSONDecodeError string
  | ClientError string
  | EntityNotFoundException
  | ConnectionError string py_error

subsection \<open>Datetimes: \<^verbatim>\<open>isoformat()\<close> and comparison\<close>

definition digit_char :: "nat \<Rightarrow> char" where
  "digit_char n = char_of (48 + n)"

fun digits :: "nat \<Rightarrow> string" where
  "digits n = (if n < 10 then [digit_char n] else digits (n div 10) @ [digit_char (n mod 10)])"

declare digits.simps [simp del]

definition pad :: "nat \<Rightarrow> nat \<Rightarrow> string" where
  "pad w n = replicate (w - length (digits n)) (CHR ''0'') @ digits n"

definition show_int :: "int \<Rightarrow> string" where
  "show_int i = (if i < 0 then CHR ''-'' # digits (nat (- i)) else digits (nat i))"

definition iso_offset :: "int \<Rightarrow> string" where
  "iso_offset off =
     (let a = nat \<bar>off\<bar>
      in (if off < 0 then ''-'' else ''+'') @ pad 2 (a div 3600) @ '':'' @ pad 2 ((a mod 3600) div 60)
         @ (if a mod 60 = 0 then '''' else '':'' @ pad 2 (a mod 60)))"

definition isoformat :: "datetime \<Rightarrow> string" where
  "isoformat d =
     pad 4 (year d) @ ''-'' @ pad 2 (month d) @ ''-'' @ pad 2 (day d) @ ''T''
     @ pad 2 (hour d) @ '':'' @ pad 2 (minute d) @ '':'' @ pad 2 (second d)
     @ (if microsecond d = 0 then '''' else ''.'' @ pad 6 (microsecond d))
     @ (case utcoffset d of None \<Rightarrow> '''' | Some off \<Rightarrow> iso_offset off)"

definition is_leap :: "nat \<Rightarrow> bool" where
  "is_leap y = (y mod 4 = 0 \<and> (y mod 100 \<noteq> 0 \<or> y mod 400 = 0))"

definition days_in_month :: "nat \<Rightarrow> nat \<Rightarrow> nat" where
  "days_in_month y m =
     (if m = 2 then (if is_leap y then 29 else 28)
      else if m \<in> {4, 6, 9, 11} then 30 else 31)"

definition ordinal :: "datetime \<Rightarrow> int" where
  "ordinal d =
     (let y = int (year d) - 1
      in y * 365 + y div 4 - y div 100 + y div 400
         + int (sum_list (map (days_in_month (year d)) [1 ..< month d])) + int (day d))"

definition local_microseconds :: "datetime \<Rightarrow> int" where
  "local_microseconds d =
     (((ordinal d * 24 + int (hour d)) * 60 + int (minute d)) * 60 + int (second d)) * 1000000
     + int (microsecond d)"

text \<open>
  \<^verbatim>\<open>==\<close> on datetimes: two naive values are compared field by field, two aware values as
  instants, and a naive value never equals an aware one.
\<close>

definition dt_eq :: "datetime \<Rightarrow> datetime \<Rightarrow> bool" where
  "dt_eq a b =
     (case (utcoffset a, utcoffset b) of
        (None, None) \<Rightarrow> local_microseconds a = local_microseconds b
      | (Some oa, Some ob) \<Rightarrow>
          local_microseconds a - oa * 1000000 = local_microseconds b - ob * 1000000
      | _ \<Rightarrow> False)"

subsection \<open>Equality, hashing and dictionaries\<close>

text \<open>\<^verbatim>\<open>True == 1\<close> and \<^verbatim>\<open>False == 0\<close> hold in Python, also for dictionary keys.\<close>

fun key_eq :: "pykey \<Rightarrow> pykey \<Rightarrow> bool" where
  "key_eq (KBool a) (KInt i) = (i = (if a then 1 else 0))"
| "key_eq (KInt i) (KBool a) = (i = (if a then 1 else 0))"
| "key_eq (KDatetime a) (KDatetime b) = dt_eq a b"
| "key_eq a b = (a = b)"

text \<open>
  A dictionary is an association list in insertion order. \<open>dict_set\<close> is
  \<^verbatim>\<open>d[k] = v\<close>: an existing key keeps its place (and its key object), a new one is appended.
\<close>

type_synonym dict = "(pykey \<times> pyval) list"

fun dict_get :: "dict \<Rightarrow> pykey \<Rightarrow> pyval option" where
  "dict_get [] k = None"
| "dict_get ((k', v) # d) k = (if key_eq k' k then Some v else dict_get d k)"

fun dict_set :: "dict \<Rightarrow> pykey \<Rightarrow> pyval \<Rightarrow> dict" where
  "dict_set [] k v = [(k, v)]"
| "dict_set ((k', v') # d) k v =
     (if key_eq k' k then (k', v) # d else (k', v') # dict_set d k v)"

definition dict_mem :: "dict \<Rightarrow> pykey \<Rightarrow> bool" where
  "dict_mem d k = (dict_get d k \<noteq> None)"

fun to_key :: "pyval \<Rightarrow> pykey option" where
  "to_key PNone = Some KNone"
| "to_key (PBool b) = Some (KBool b)"
| "to_key (PInt i) = Some (KInt i)"
| "to_key (PStr s) = Some (KStr s)"
| "to_key (PBytes s) = Some (KBytes s)"
| "to_key (PDatetime d) = Some (KDatetime d)"
| "to_key (PList _) = None"
| "to_key (PDict _) = None"

fun of_key :: "pykey \<Rightarrow> pyval" where
  "of_key KNone = PNone"
| "of_key (KBool b) = PBool b"
| "of_key (KInt i) = PInt i"
| "of_key (KStr s) = PStr s"
| "of_key (KBytes s) = PBytes s"
| "of_key (KDatetime d) = PDatetime d"

text \<open>\<^verbatim>\<open>a == b\<close>: lists elementwise, dictionaries regardless of order.\<close>

fun py_eq :: "pyval \<Rightarrow> pyval \<Rightarrow> bool"
and py_eq_list :: "pyval list \<Rightarrow> pyval list \<Rightarrow> bool" where
  "py_eq (PList xs) (PList ys) = py_eq_list xs ys"
| "py_eq (PDict d) (PDict e) = (length d = length e \<and>
     list_all (\<lambda>(k, v). case dict_get e k of None \<Rightarrow> False | Some w \<Rightarrow> py_eq v w) d)"
| "py_eq (PList xs) b = False"
| "py_eq (PDict d) b = False"
| "py_eq a b = (case (to_key a, to_key b) of (Some k, Some l) \<Rightarrow> key_eq k l | _ \<Rightarrow> False)"
| "py_eq_list [] [] = True"
| "py_eq_list (x # xs) (y # ys) = (py_eq x y \<and> py_eq_list xs ys)"
| "py_eq_list _ _ = False"

fun type_name :: "pyval \<Rightarrow> string" where
  "type_name PNone = ''NoneType''"
| "type_name (PBool _) = ''bool''"
| "type_name (PInt _) = ''int''"
| "type_name (PStr _) = ''str''"
| "type_name (PBytes _) = ''bytes''"
| "type_name (PDatetime _) = ''datetime.datetime''"
| "type_name (PList _) = ''list''"
| "type_name (PDict _) = ''dict''"

text \<open>\<^verbatim>\<open>str(type(obj))\<close>, as \<^verbatim>\<open>'{}'.format(type(obj))\<close> renders it.\<close>

definition quoted :: "string \<Rightarrow> string" where
  "quoted s = [CHR 0x27] @ s @ [CHR 0x27]"

definition type_repr :: "pyval \<Rightarrow> string" where
  "type_repr v = ''<class '' @ quoted (type_name v) @ ''>''"

definition no_attribute :: "pyval \<Rightarrow> string \<Rightarrow> py_error" where
  "no_attribute v attr =
     AttributeError (quoted (type_name v) @ '' object has no attribute '' @ quoted attr)"

definition unhashable :: "pyval \<Rightarrow> py_error" where
  "unhashable v = TypeError (''unhashable type: '' @ quoted (type_name v))"

subsection \<open>The operations the program applies to values\<close>

text \<open>\<^verbatim>\<open>obj.get(key, default)\<close>: only dictionaries have the method.\<close>

definition py_get :: "pyval \<Rightarrow> string \<Rightarrow> pyval \<Rightarrow> py_error + pyval" where
  "py_get obj key dflt =
     (case obj of
        PDict d \<Rightarrow> Inr (case dict_get d (KStr key) of Some v \<Rightarrow> v | None \<Rightarrow> dflt)
      | _ \<Rightarrow> Inl (no_attribute obj ''get''))"

text \<open>
  \<^verbatim>\<open>obj[key]\<close>. A list, a string or a byte string is indexed by an integer (a boolean
  is one), negative indices counting from the end.
\<close>

definition py_index :: "int \<Rightarrow> nat \<Rightarrow> nat option" where
  "py_index i n =
     (if 0 \<le> i \<and> i < int n then Some (nat i)
      else if i < 0 \<and> - int n \<le> i then Some (nat (i + int n))
      else None)"

definition as_index :: "pyval \<Rightarrow> int option" where
  "as_index key = (case key of PInt i \<Rightarrow> Some i | PBool b \<Rightarrow> Some (if b then 1 else 0) | _ \<Rightarrow> None)"

definition py_getitem :: "pyval \<Rightarrow> pyval \<Rightarrow> py_error + pyval" where
  "py_getitem obj key =
     (case obj of
        PDict d \<Rightarrow>
          (case to_key key of
             None \<Rightarrow> Inl (unhashable key)
           | Some k \<Rightarrow> (case dict_get d k of Some v \<Rightarrow> Inr v | None \<Rightarrow> Inl (KeyError k)))
      | PList xs \<Rightarrow>
          (case as_index key of
             None \<Rightarrow> Inl (TypeError (''list indices must be integers or slices, not '' @ type_name key))
           | Some i \<Rightarrow>
               (case py_index i (length xs) of
                  None \<Rightarrow> Inl (IndexError ''list index out of range'')
                | Some n \<Rightarrow> Inr (xs ! n)))
      | PStr s \<Rightarrow>
          (case as_index key of
             None \<Rightarrow> Inl (TypeError ''string indices must be integers'')
           | Some i \<Rightarrow>
               (case py_index i (length s) of
                  None \<Rightarrow> Inl (IndexError ''string index out of range'')
                | Some n \<Rightarrow> Inr (PStr [s ! n])))
      | PBytes s \<Rightarrow>
          (case as_index key of
             None \<Rightarrow> Inl (TypeError (''byte indices must be integers or slices, not '' @ type_name key))
           | Some i \<Rightarrow>
               (case py_index i (length s) of
                  None \<Rightarrow> Inl (IndexError ''index out of range'')
                | Some n \<Rightarrow> Inr (PInt (int (of_char (s ! n))))))
      | _ \<Rightarrow> Inl (TypeError (quoted (type_name obj) @ '' object is not subscriptable'')))"

definition py_subscript :: "pyval \<Rightarrow> string \<Rightarrow> py_error + pyval" where
  "py_subscript obj key = py_getitem obj (PStr key)"

text \<open>\<^verbatim>\<open>obj[key] = v\<close> for a string key: only a dictionary (or a list, by index) takes it.\<close>

definition py_store :: "pyval \<Rightarrow> string \<Rightarrow> pyval \<Rightarrow> py_error + pyval" where
  "py_store obj key v =
     (case obj of
        PDict d \<Rightarrow> Inr (PDict (dict_set d (KStr key) v))
      | PList _ \<Rightarrow> Inl (TypeError ''list indices must be integers or slices, not str'')
      | _ \<Rightarrow> Inl (TypeError (quoted (type_name obj) @ '' object does not support item assignment'')))"

text \<open>\<^verbatim>\<open>d[key] = v\<close> on a dictionary built by the program: the key must be hashable.\<close>

definition py_setitem :: "dict \<Rightarrow> pyval \<Rightarrow> pyval \<Rightarrow> py_error + dict" where
  "py_setitem d key v =
     (case to_key key of None \<Rightarrow> Inl (unhashable key) | Some k \<Rightarrow> Inr (dict_set d k v))"

text \<open>\<^verbatim>\<open>for x in obj\<close>: the elements the loop visits.\<close>

definition py_iter :: "pyval \<Rightarrow> py_error + pyval list" where
  "py_iter obj =
     (case obj of
        PList xs \<Rightarrow> Inr xs
      | PDict d \<Rightarrow> Inr (map (\<lambda>(k, v). of_key k) d)
      | PStr s \<Rightarrow> Inr (map (\<lambda>c. PStr [c]) s)
      | PBytes s \<Rightarrow> Inr (map (\<lambda>c. PInt (int (of_char c))) s)
      | _ \<Rightarrow> Inl (TypeError (quoted (type_name obj) @ '' object is not iterable'')))"

text \<open>\<^verbatim>\<open>x in container\<close>.\<close>

definition py_in :: "pyval \<Rightarrow> pyval \<Rightarrow> py_error + bool" where
  "py_in x container =
     (case container of
        PList xs \<Rightarrow> Inr (list_ex (py_eq x) xs)
      | PDict d \<Rightarrow> (case to_key x of None \<Rightarrow> Inl (unhashable x) | Some k \<Rightarrow> Inr (dict_mem d k))
      | PStr s \<Rightarrow>
          (case x of
             PStr t \<Rightarrow> Inr (sublist t s)
           | _ \<Rightarrow> Inl (TypeError (quoted ''in <string>'' @ '' requires string as left operand, not ''
                                  @ type_name x)))
      | PBytes s \<Rightarrow>
          (case x of
             PBytes t \<Rightarrow> Inr (sublist t s)
           | PInt i \<Rightarrow>
               (if 0 \<le> i \<and> i < 256 then Inr (i \<in> set (map (\<lambda>c. int (of_char c)) s))
                else Inl (ValueError ''byte must be in range(0, 256)''))
           | PBool b \<Rightarrow> Inr ((if b then 1 else 0) \<in> set (map (\<lambda>c. int (of_char c)) s))
           | _ \<Rightarrow> Inl (TypeError (''a bytes-like object is required, not '' @ quoted (type_name x))))
      | _ \<Rightarrow> Inl (TypeError (''argument of type '' @ quoted (type_name container)
                             @ '' is not iterable'')))"

text \<open>
  \<^verbatim>\<open>str.strip()\<close> removes leading and trailing whitespace: the code points 9 to 13,
  28 to 32, 133 and 160 among those below 256.
\<close>

definition is_space :: "char \<Rightarrow> bool" where
  "is_space c = ((of_char c :: nat) \<in> {9, 10, 11, 12, 13, 28, 29, 30, 31, 32, 133, 160})"

definition strip :: "string \<Rightarrow> string" where
  "strip s = rev (dropWhile is_space (rev (dropWhile is_space s)))"

text \<open>
  The test \<^verbatim>\<open>comment is None or comment.strip() == ""\<close>. A byte string has a
  \<^verbatim>\<open>strip\<close> method, but its result never equals the string \<^verbatim>\<open>""\<close>; every other
  value has no such method.
\<close>

definition is_blank :: "pyval \<Rightarrow> py_error + bool" where
  "is_blank comment =
     (case comment of
        PNone \<Rightarrow> Inr True
      | PStr s \<Rightarrow> Inr (strip s = '''')
      | PBytes _ \<Rightarrow> Inr False
      | _ \<Rightarrow> Inl (no_attribute comment ''strip''))"

section \<open>The environment and what a run does to it\<close>

text \<open>
  The catalog, the file system and the configuration module are parameters: each call
  of an external operation asks the environment for its outcome and is recorded as an
  event, in order. \<open>SnapshotAttempt f\<close> records that
  \<^verbatim>\<open>write_metadata_and_missing_values\<close> was entered with output file \<open>f\<close>.
\<close>

datatype json = JNull | JBool bool | JInt int | JStr string | JArr "json list"
  | JObj "(string \<times> json) list"

datatype message =
    TableNotFound string string
  | ErrorOccurred py_error
  | ErrorDuringMetadataWriting py_error
  | NoMissingColumns
  | UpdatedSuccessfully

datatype event =
    GetTable string string string
  | UpdateTable string pyval
  | SnapshotAttempt string
  | FileOpened string
  | FileWritten string json
  | FileRead string
  | Printed message
  | LoggedException py_error

datatype fs_outcome = WriteOk | OpenFails py_error | WriteFails py_error

record config =
  AWS_ACCESS_KEY_ID :: string
  AWS_SECRET_ACCESS_KEY :: string
  REGION_NAME :: string
  BUCKET_NAME :: string
  OBJECT_NAME :: string
  DATABASE_NAME :: string
  TABLE_NAME :: string
  CATALOG_ID :: string

record env =
  glue_metadata_config :: config
  session_client :: "string \<Rightarrow> py_error option"
    \<comment> \<open>\<^verbatim>\<open>boto3.Session(profile_name='fpac').client(service)\<close>: the exception raised, if any\<close>
  get_table :: "string \<Rightarrow> string \<Rightarrow> string \<Rightarrow> py_error + pyval"
    \<comment> \<open>\<^verbatim>\<open>glue_client.get_table(DatabaseName, Name, CatalogId)\<close>\<close>
  update_table :: "string \<Rightarrow> pyval \<Rightarrow> py_error option"
    \<comment> \<open>\<^verbatim>\<open>glue_client.update_table(DatabaseName, TableInput)\<close>\<close>
  open_write :: "string \<Rightarrow> fs_outcome"
    \<comment> \<open>\<^verbatim>\<open>open(file, 'w')\<close> and the writes to it\<close>
  load_json :: "string \<Rightarrow> py_error + pyval"
    \<comment> \<open>\<^verbatim>\<open>open(file, 'r')\<close> followed by \<^verbatim>\<open>json.load\<close>\<close>

section \<open>Serialization\<close>

definition serialize_datetime :: "pyval \<Rightarrow> py_error + string" where
  "serialize_datetime obj =
     (case obj of
        PDatetime d \<Rightarrow> Inr (isoformat d)
      | _ \<Rightarrow> Inl (TypeError (''Object of type '' @ quoted (type_repr obj)
                             @ '' is not JSON serializable'')))"

text \<open>The key of a JSON object: \<^verbatim>\<open>json\<close> converts the basic types and rejects the others.\<close>

definition json_key :: "pykey \<Rightarrow> py_error + string" where
  "json_key k =
     (case k of
        KStr s \<Rightarrow> Inr s
      | KNone \<Rightarrow> Inr ''null''
      | KBool b \<Rightarrow> Inr (if b then ''true'' else ''false'')
      | KInt i \<Rightarrow> Inr (show_int i)
      | KBytes _ \<Rightarrow> Inl (TypeError ''keys must be str, int, float, bool or None, not bytes'')
      | KDatetime _ \<Rightarrow> Inl (TypeError ''keys must be str, int, float, bool or None, not datetime''))"

text \<open>
  \<^verbatim>\<open>json.dump(data, f, indent=4, default=serialize_datetime)\<close>, up to layout: the JSON
  document that the text written stands for. A value that \<^verbatim>\<open>json\<close> cannot encode
  itself is handed to \<open>serialize_datetime\<close>, whose string is encoded in its place.
\<close>

fun json_dump :: "pyval \<Rightarrow> py_error + json"
and json_dump_list :: "pyval list \<Rightarrow> py_error + json list"
and json_dump_items :: "(pykey \<times> pyval) list \<Rightarrow> py_error + (string \<times> json) list" where
  "json_dump PNone = Inr JNull"
| "json_dump (PBool b) = Inr (JBool b)"
| "json_dump (PInt i) = Inr (JInt i)"
| "json_dump (PStr s) = Inr (JStr s)"
| "json_dump (PBytes b) =
     (case serialize_datetime (PBytes b) of Inl e \<Rightarrow> Inl e | Inr s \<Rightarrow> Inr (JStr s))"
| "json_dump (PDatetime d) =
     (case serialize_datetime (PDatetime d) of Inl e \<Rightarrow> Inl e | Inr s \<Rightarrow> Inr (JStr s))"
| "json_dump (PList xs) =
     (case json_dump_list xs of Inl e \<Rightarrow> Inl e | Inr js \<Rightarrow> Inr (JArr js))"
| "json_dump (PDict d) =
     (case json_dump_items d of Inl e \<Rightarrow> Inl e | Inr js \<Rightarrow> Inr (JObj js))"
| "json_dump_list [] = Inr []"
| "json_dump_list (x # xs) =
     (case json_dump x of Inl e \<Rightarrow> Inl e
      | Inr j \<Rightarrow> (case json_dump_list xs of Inl e \<Rightarrow> Inl e | Inr js \<Rightarrow> Inr (j # js)))"
| "json_dump_items [] = Inr []"
| "json_dump_items ((k, v) # d) =
     (case json_key k of Inl e \<Rightarrow> Inl e
      | Inr s \<Rightarrow>
          (case json_dump v of Inl e \<Rightarrow> Inl e
           | Inr j \<Rightarrow> (case json_dump_items d of Inl e \<Rightarrow> Inl e | Inr js \<Rightarrow> Inr ((s, j) # js))))"

section \<open>\<^verbatim>\<open>write_metadata_and_missing_values\<close>\<close>

text \<open>The loop over the columns: lines 137 to 146.\<close>

fun snapshot_columns :: "pyval \<Rightarrow> pyval list \<Rightarrow> dict \<Rightarrow> dict \<Rightarrow> py_error + dict \<times> dict" where
  "snapshot_columns missing_values [] default_values missing_columns =
     Inr (default_values, missing_columns)"
| "snapshot_columns missing_values (column # rest) default_values missing_columns =
     (case py_get column ''Name'' PNone of Inl e \<Rightarrow> Inl e | Inr name \<Rightarrow>
      case py_get column ''Comment'' PNone of Inl e \<Rightarrow> Inl e | Inr comment \<Rightarrow>
      case is_blank comment of Inl e \<Rightarrow> Inl e | Inr blank \<Rightarrow>
      case py_setitem default_values name (if blank then PStr '''' else comment) of
        Inl e \<Rightarrow> Inl e | Inr default_values' \<Rightarrow>
      case py_in name missing_values of Inl e \<Rightarrow> Inl e | Inr listed \<Rightarrow>
      if listed \<and> blank
      then (case py_setitem missing_columns name (PStr ''default comment missing'') of
              Inl e \<Rightarrow> Inl e
            | Inr missing_columns' \<Rightarrow>
                snapshot_columns missing_values rest default_values' missing_columns')
      else snapshot_columns missing_values rest default_values' missing_columns)"

text \<open>The loop over the keys of \<open>default_values\<close>: lines 149 to 151.\<close>

fun add_untagged :: "dict \<Rightarrow> pykey list \<Rightarrow> dict \<Rightarrow> dict" where
  "add_untagged default_values [] missing_columns = missing_columns"
| "add_untagged default_values (column # rest) missing_columns =
     add_untagged default_values rest
       (if \<not> dict_mem missing_columns column
           \<and> (case dict_get default_values column of Some v \<Rightarrow> py_eq v (PStr '''') | None \<Rightarrow> False)
        then dict_set missing_columns column (PStr '''')
        else missing_columns)"

text \<open>The report and the snapshot data: lines 134 to 156.\<close>

definition snapshot_data :: "pyval \<Rightarrow> pyval \<Rightarrow> py_error + dict \<times> dict" where
  "snapshot_data metadata missing_values =
     (case py_get metadata ''StorageDescriptor'' (PDict []) of Inl e \<Rightarrow> Inl e | Inr sd \<Rightarrow>
      case py_get sd ''Columns'' (PList []) of Inl e \<Rightarrow> Inl e | Inr columns \<Rightarrow>
      case py_iter columns of Inl e \<Rightarrow> Inl e | Inr cols \<Rightarrow>
      case snapshot_columns missing_values cols [] [] of Inl e \<Rightarrow> Inl e
      | Inr (default_values, missing_columns) \<Rightarrow>
          Inr (default_values, add_untagged default_values (map fst default_values) missing_columns))"

definition snapshot_document :: "dict \<times> dict \<Rightarrow> pyval" where
  "snapshot_document r =
     PDict [(KStr ''default_values'', PDict (fst r)), (KStr ''missing_columns'', PDict (snd r))]"

text \<open>
  The body of the \<^verbatim>\<open>try\<close>. The file is opened, and so truncated, before the data is
  serialized into it; a failure of the serialization leaves it without a document.
\<close>

definition write_body :: "env \<Rightarrow> pyval \<Rightarrow> pyval \<Rightarrow> string \<Rightarrow> (py_error + unit) \<times> event list" where
  "write_body E metadata missing_values output_file =
     (case snapshot_data metadata missing_values of
        Inl e \<Rightarrow> (Inl e, [])
      | Inr r \<Rightarrow>
          (case open_write E output_file of
             OpenFails e \<Rightarrow> (Inl e, [])
           | WriteFails e \<Rightarrow>
               (case json_dump (snapshot_document r) of
                  Inl e' \<Rightarrow> (Inl e', [FileOpened output_file])
                | Inr doc \<Rightarrow> (Inl e, [FileOpened output_file]))
           | WriteOk \<Rightarrow>
               (case json_dump (snapshot_document r) of
                  Inl e' \<Rightarrow> (Inl e', [FileOpened output_file])
                | Inr doc \<Rightarrow> (Inr (), [FileOpened output_file, FileWritten output_file doc]))))"

text \<open>The function: \<^verbatim>\<open>except Exception\<close> prints the error, and \<^verbatim>\<open>None\<close> is returned.\<close>

definition write_metadata_and_missing_values ::
  "env \<Rightarrow> pyval \<Rightarrow> pyval \<Rightarrow> string \<Rightarrow> (py_error + pyval) \<times> event list" where
  "write_metadata_and_missing_values E metadata missing_values output_file =
     (case write_body E metadata missing_values output_file of
        (Inl e, evs) \<Rightarrow>
          (Inr PNone, SnapshotAttempt output_file # evs @ [Printed (ErrorDuringMetadataWriting e)])
      | (Inr u, evs) \<Rightarrow> (Inr PNone, SnapshotAttempt output_file # evs))"

section \<open>\<^verbatim>\<open>get_table_metadata\<close>\<close>

definition get_aws_token :: "env \<Rightarrow> config" where
  "get_aws_token E = glue_metadata_config E"

definition login_to_aws_s3 :: "env \<Rightarrow> py_error option" where
  "login_to_aws_s3 E =
     (case session_client E ''s3'' of
        Some e \<Rightarrow> Some (ConnectionError ''Error connecting to AWS S3 Bucket : '' e)
      | None \<Rightarrow> None)"

definition login_to_aws_glue :: "env \<Rightarrow> py_error option" where
  "login_to_aws_glue E =
     (case session_client E ''glue'' of
        Some e \<Rightarrow> Some (ConnectionError ''Error connecting to AWS Glue : '' e)
      | None \<Rightarrow> None)"

text \<open>\<^verbatim>\<open>[key for key, value in metadata.items() if value is None]\<close>: line 106.\<close>

definition null_fields :: "pyval \<Rightarrow> py_error + pyval" where
  "null_fields metadata =
     (case metadata of
        PDict d \<Rightarrow> Inr (PList (map (\<lambda>(k, v). of_key k) (filter (\<lambda>(k, v). v = PNone) d)))
      | _ \<Rightarrow> Inl (no_attribute metadata ''items''))"

text \<open>The body of the \<^verbatim>\<open>try\<close> after \<^verbatim>\<open>get_table\<close> has returned: lines 103 to 111.\<close>

definition fetched :: "env \<Rightarrow> pyval \<Rightarrow> (py_error + pyval) \<times> event list" where
  "fetched E response =
     (case py_subscript response ''Table'' of Inl e \<Rightarrow> (Inl e, []) | Inr metadata \<Rightarrow>
      case null_fields metadata of Inl e \<Rightarrow> (Inl e, []) | Inr missing_values \<Rightarrow>
      case write_metadata_and_missing_values E metadata missing_values ''default_metadata.json'' of
        (Inl e, evs) \<Rightarrow> (Inl e, evs)
      | (Inr u, evs) \<Rightarrow> (Inr metadata, evs))"

text \<open>
  The parameters are overwritten by the configuration in line 97. A failure to create
  the client is raised outside the \<^verbatim>\<open>try\<close> and propagates.
\<close>

definition get_table_metadata :: "env \<Rightarrow> string \<Rightarrow> string \<Rightarrow> (py_error + pyval) \<times> event list" where
  "get_table_metadata E database_name0 table_name0 =
     (case login_to_aws_glue E of
        Some e \<Rightarrow> (Inl e, [])
      | None \<Rightarrow>
          (let c = get_aws_token E;
               database_name = DATABASE_NAME c; table_name = TABLE_NAME c; catalog_id = CATALOG_ID c;
               call = GetTable database_name table_name catalog_id
           in case get_table E database_name table_name catalog_id of
                Inl EntityNotFoundException \<Rightarrow>
                  (Inr PNone, [call, Printed (TableNotFound table_name database_name)])
              | Inl e \<Rightarrow> (Inr PNone, [call, Printed (ErrorOccurred e)])
              | Inr response \<Rightarrow>
                  (case fetched E response of
                     (Inl EntityNotFoundException, evs) \<Rightarrow>
                       (Inr PNone, call # evs @ [Printed (TableNotFound table_name database_name)])
                   | (Inl e, evs) \<Rightarrow> (Inr PNone, call # evs @ [Printed (ErrorOccurred e)])
                   | (Inr metadata, evs) \<Rightarrow> (Inr metadata, call # evs))))"

section \<open>\<^verbatim>\<open>add_update_missing_values\<close>\<close>

text \<open>
  The function changes the column dictionaries of \<open>metadata\<close> in place, so the model
  returns the document as it is after the call next to the value returned (or the
  exception raised) and the events. The document is a tree: no two columns are one
  object.
\<close>

record outcome =
  returned :: "py_error + pyval"
  document :: pyval
  trace :: "event list"

text \<open>The first loop: lines 180 to 183.\<close>

fun find_missing :: "pyval list \<Rightarrow> dict \<Rightarrow> py_error + dict" where
  "find_missing [] missing_columns = Inr missing_columns"
| "find_missing (col # rest) missing_columns =
     (case py_get col ''Comment'' PNone of Inl e \<Rightarrow> Inl e | Inr comment \<Rightarrow>
      case is_blank comment of Inl e \<Rightarrow> Inl e | Inr blank \<Rightarrow>
      if blank
      then (case py_subscript col ''Name'' of Inl e \<Rightarrow> Inl e | Inr name \<Rightarrow>
            case py_setitem missing_columns name (PStr '''') of Inl e \<Rightarrow> Inl e
            | Inr missing_columns' \<Rightarrow> find_missing rest missing_columns')
      else find_missing rest missing_columns)"

text \<open>
  The inner loop, lines 198 to 200, over the columns as they are now; an exception
  leaves the columns already visited changed.
\<close>

fun set_comment :: "pykey \<Rightarrow> pyval \<Rightarrow> pyval list \<Rightarrow> pyval list \<times> py_error option" where
  "set_comment column new_comment [] = ([], None)"
| "set_comment column new_comment (col # rest) =
     (case py_subscript col ''Name'' of
        Inl e \<Rightarrow> (col # rest, Some e)
      | Inr name \<Rightarrow>
          (if py_eq name (of_key column)
           then (case py_store col ''Comment'' new_comment of
                   Inl e \<Rightarrow> (col # rest, Some e)
                 | Inr col' \<Rightarrow>
                     (case set_comment column new_comment rest of (rest', r) \<Rightarrow> (col' # rest', r)))
           else (case set_comment column new_comment rest of (rest', r) \<Rightarrow> (col # rest', r))))"

text \<open>The outer loop over \<open>missing_columns.items()\<close>: lines 193 to 200.\<close>

fun apply_new_values :: "pyval \<Rightarrow> dict \<Rightarrow> pyval list \<Rightarrow> pyval list \<times> py_error option" where
  "apply_new_values new_values [] cols = (cols, None)"
| "apply_new_values new_values ((column, new_comment) # rest) cols =
     (case py_in (of_key column) new_values of
        Inl e \<Rightarrow> (cols, Some e)
      | Inr listed \<Rightarrow>
          (case (if listed then py_getitem new_values (of_key column) else Inr new_comment) of
             Inl e \<Rightarrow> (cols, Some e)
           | Inr new_comment' \<Rightarrow>
               (case set_comment column new_comment' cols of
                  (cols', Some e) \<Rightarrow> (cols', Some e)
                | (cols', None) \<Rightarrow> apply_new_values new_values rest cols')))"

text \<open>
  The document with the list \<open>metadata['StorageDescriptor']['Columns']\<close> holding the
  columns \<open>cols\<close>. The second loop is reached only when that value is a list.
\<close>

definition with_columns :: "pyval \<Rightarrow> pyval list \<Rightarrow> pyval" where
  "with_columns metadata cols =
     (case metadata of
        PDict entries \<Rightarrow>
          (case dict_get entries (KStr ''StorageDescriptor'') of
             Some (PDict sd) \<Rightarrow>
               (case dict_get sd (KStr ''Columns'') of
                  Some (PList _) \<Rightarrow>
                    PDict (dict_set entries (KStr ''StorageDescriptor'')
                             (PDict (dict_set sd (KStr ''Columns'') (PList cols))))
                | _ \<Rightarrow> metadata)
           | _ \<Rightarrow> metadata)
      | _ \<Rightarrow> metadata)"

definition table_input :: "string \<Rightarrow> pyval \<Rightarrow> py_error + pyval" where
  "table_input table_name metadata =
     (case py_subscript metadata ''StorageDescriptor'' of Inl e \<Rightarrow> Inl e | Inr sd \<Rightarrow>
      case py_subscript sd ''Columns'' of Inl e \<Rightarrow> Inl e | Inr columns \<Rightarrow>
      Inr (PDict [(KStr ''Name'', PStr table_name),
                  (KStr ''StorageDescriptor'', PDict [(KStr ''Columns'', columns)])]))"

definition add_update_missing_values :: "env \<Rightarrow> string \<Rightarrow> string \<Rightarrow> pyval \<Rightarrow> outcome" where
  "add_update_missing_values E database_name table_name metadata =
     (let raise = (\<lambda>e m evs. \<lparr>returned = Inl e, document = m, trace = evs\<rparr>)
      in
      case py_subscript metadata ''StorageDescriptor'' of Inl e \<Rightarrow> raise e metadata [] | Inr sd \<Rightarrow>
      case py_subscript sd ''Columns'' of Inl e \<Rightarrow> raise e metadata [] | Inr columns \<Rightarrow>
      case py_iter columns of Inl e \<Rightarrow> raise e metadata [] | Inr cols \<Rightarrow>
      case find_missing cols [] of Inl e \<Rightarrow> raise e metadata [] | Inr missing_columns \<Rightarrow>
      if missing_columns = []
      then \<lparr>returned = Inr (PDict []), document = metadata, trace = [Printed NoMissingColumns]\<rparr>
      else
        (case load_json E ''new_values.json'' of
           Inl e \<Rightarrow> raise e metadata [FileRead ''new_values.json'']
         | Inr new_values \<Rightarrow>
             (case apply_new_values new_values missing_columns cols of
                (cols', Some e) \<Rightarrow> raise e (with_columns metadata cols') [FileRead ''new_values.json'']
              | (cols', None) \<Rightarrow>
                  (let metadata' = with_columns metadata cols'
                   in case table_input table_name metadata' of
                        Inl e \<Rightarrow> raise e metadata' [FileRead ''new_values.json'']
                      | Inr ti \<Rightarrow>
                          (case update_table E database_name ti of
                             Some e \<Rightarrow>
                               raise e metadata'
                                 [FileRead ''new_values.json'', UpdateTable database_name ti]
                           | None \<Rightarrow>
                               \<lparr>returned = Inr metadata', document = metadata',
                                trace = [FileRead ''new_values.json'', UpdateTable database_name ti,
                                         Printed UpdatedSuccessfully]\<rparr>)))))"

section \<open>\<^verbatim>\<open>main\<close>\<close>

text \<open>The body of the \<^verbatim>\<open>try\<close>: the exception that ends it, if any, and the events.\<close>

definition main_body :: "env \<Rightarrow> py_error option \<times> event list" where
  "main_body E =
     (let c = get_aws_token E; database_name = DATABASE_NAME c; table_name = TABLE_NAME c
      in case login_to_aws_s3 E of Some e \<Rightarrow> (Some e, []) | None \<Rightarrow>
         case login_to_aws_glue E of Some e \<Rightarrow> (Some e, []) | None \<Rightarrow>
         case get_table_metadata E database_name table_name of
           (Inl e, evs) \<Rightarrow> (Some e, evs)
         | (Inr default_table_metadata, evs) \<Rightarrow>
             (let r = add_update_missing_values E database_name table_name default_table_metadata
              in case returned r of
                   Inl e \<Rightarrow> (Some e, evs @ trace r)
                 | Inr update_table_metadata \<Rightarrow>
                     (case py_get update_table_metadata ''missing_columns'' (PDict []) of
                        Inl e \<Rightarrow> (Some e, evs @ trace r)
                      | Inr missing_values \<Rightarrow>
                          (case write_metadata_and_missing_values E update_table_metadata
                                  missing_values ''updated_metadata.json'' of
                             (Inl e, evs') \<Rightarrow> (Some e, evs @ trace r @ evs')
                           | (Inr u, evs') \<Rightarrow> (None, evs @ trace r @ evs')))))"

definition main :: "env \<Rightarrow> event list" where
  "main E =
     (case main_body E of
        (Some e, evs) \<Rightarrow> evs @ [LoggedException e]
      | (None, evs) \<Rightarrow> evs)"

section \<open>Metadata documents, as the specification describes them\<close>

text \<open>
  A table's metadata document holds its columns under
  \<open>metadata['StorageDescriptor']['Columns']\<close>; a column descriptor has a name (a
  string, unique within the table) and an optional comment (a string).
\<close>

definition columns_of :: "pyval \<Rightarrow> pyval list option" where
  "columns_of metadata =
     (case metadata of
        PDict entries \<Rightarrow>
          (case dict_get entries (KStr ''StorageDescriptor'') of
             Some (PDict sd) \<Rightarrow>
               (case dict_get sd (KStr ''Columns'') of Some (PList cols) \<Rightarrow> Some cols | _ \<Rightarrow> None)
           | _ \<Rightarrow> None)
      | _ \<Rightarrow> None)"

definition column_name :: "pyval \<Rightarrow> pyval option" where
  "column_name col = (case col of PDict d \<Rightarrow> dict_get d (KStr ''Name'') | _ \<Rightarrow> None)"

definition column_comment :: "pyval \<Rightarrow> pyval option" where
  "column_comment col = (case col of PDict d \<Rightarrow> dict_get d (KStr ''Comment'') | _ \<Rightarrow> None)"

definition name_of :: "pyval \<Rightarrow> string" where
  "name_of col = (case column_name col of Some (PStr n) \<Rightarrow> n | _ \<Rightarrow> '''')"

definition wf_column :: "pyval \<Rightarrow> bool" where
  "wf_column col =
     ((case col of PDict d \<Rightarrow> True | _ \<Rightarrow> False)
      \<and> (case column_name col of Some (PStr n) \<Rightarrow> True | _ \<Rightarrow> False)
      \<and> (case column_comment col of
            None \<Rightarrow> True | Some PNone \<Rightarrow> True | Some (PStr s) \<Rightarrow> True | _ \<Rightarrow> False))"

definition wf_metadata :: "pyval \<Rightarrow> bool" where
  "wf_metadata metadata =
     (case columns_of metadata of
        Some cols \<Rightarrow> list_all wf_column cols \<and> distinct (map name_of cols)
      | None \<Rightarrow> False)"

text \<open>A column is undocumented when its comment is absent or blank after trimming.\<close>

definition undocumented :: "pyval \<Rightarrow> bool" where
  "undocumented col =
     (case column_comment col of
        None \<Rightarrow> True | Some PNone \<Rightarrow> True | Some (PStr s) \<Rightarrow> strip s = '''' | _ \<Rightarrow> False)"

text \<open>The current comment of a column, the empty string when it is undocumented.\<close>

definition current_comment :: "pyval \<Rightarrow> string" where
  "current_comment col =
     (case column_comment col of Some (PStr s) \<Rightarrow> if strip s = '''' then '''' else s | _ \<Rightarrow> '''')"

text \<open>The top-level fields of the document whose value is null.\<close>

definition is_null_field :: "pyval \<Rightarrow> string \<Rightarrow> bool" where
  "is_null_field metadata n =
     (case metadata of PDict entries \<Rightarrow> (KStr n, PNone) \<in> set entries | _ \<Rightarrow> False)"

text \<open>
  The report of the analysis at the fetch: the \<open>missing_columns\<close> that
  \<open>write_metadata_and_missing_values\<close> builds from the document and its null fields.
\<close>

definition analyze :: "pyval \<Rightarrow> py_error + dict" where
  "analyze metadata =
     (case null_fields metadata of Inl e \<Rightarrow> Inl e | Inr missing_values \<Rightarrow>
      case snapshot_data metadata missing_values of Inl e \<Rightarrow> Inl e | Inr r \<Rightarrow> Inr (snd r))"

text \<open>The merge of the specification, column by column.\<close>

definition override_for :: "dict \<Rightarrow> string \<Rightarrow> pyval" where
  "override_for overrides n =
     (case dict_get overrides (KStr n) of Some v \<Rightarrow> v | None \<Rightarrow> PStr '''')"

definition put_comment :: "pyval \<Rightarrow> pyval \<Rightarrow> pyval" where
  "put_comment col v =
     (case col of PDict d \<Rightarrow> PDict (dict_set d (KStr ''Comment'') v) | _ \<Rightarrow> col)"

definition merge_column :: "dict \<Rightarrow> pyval \<Rightarrow> pyval" where
  "merge_column overrides col =
     (if undocumented col then put_comment col (override_for overrides (name_of col)) else col)"

text \<open>A column that is a dictionary with a string name, whatever its comment is.\<close>

definition named_column :: "pyval \<Rightarrow> bool" where
  "named_column col = (case column_name col of Some (PStr n) \<Rightarrow> True | _ \<Rightarrow> False)"

text \<open>The document that a fetch retrieves, when it succeeds.\<close>

definition fetched_document :: "env \<Rightarrow> pyval option" where
  "fetched_document E =
     (let c = get_aws_token E
      in case get_table E (DATABASE_NAME c) (TABLE_NAME c) (CATALOG_ID c) of
           Inr response \<Rightarrow>
             (case py_subscript response ''Table'' of Inr (PDict d) \<Rightarrow> Some (PDict d) | _ \<Rightarrow> None)
         | Inl e \<Rightarrow> None)"

definition is_snapshot_attempt :: "event \<Rightarrow> bool" where
  "is_snapshot_attempt ev = (case ev of SnapshotAttempt f \<Rightarrow> True | _ \<Rightarrow> False)"

definition is_update :: "event \<Rightarrow> bool" where
  "is_update ev = (case ev of UpdateTable d t \<Rightarrow> True | _ \<Rightarrow> False)"

definition is_file_read :: "event \<Rightarrow> bool" where
  "is_file_read ev = (case ev of FileRead f \<Rightarrow> True | _ \<Rightarrow> False)"


subsection \<open>Sample inputs\<close>

definition sample_config :: config where
  "sample_config =
     \<lparr>AWS_ACCESS_KEY_ID = '''', AWS_SECRET_ACCESS_KEY = '''', REGION_NAME = '''', BUCKET_NAME = '''',
      OBJECT_NAME = '''', DATABASE_NAME = ''sales'', TABLE_NAME = ''orders'', CATALOG_ID = ''1''\<rparr>"

definition column :: "string \<Rightarrow> pyval \<Rightarrow> pyval" where
  "column n c = PDict [(KStr ''Name'', PStr n), (KStr ''Type'', PStr ''string''), (KStr ''Comment'', c)]"

definition table_of :: "pyval \<Rightarrow> pyval" where
  "table_of columns =
     PDict [(KStr ''Name'', PStr ''orders''), (KStr ''ts'', PNone),
            (KStr ''StorageDescriptor'',
             PDict [(KStr ''Columns'', columns), (KStr ''Location'', PStr ''s3://bucket/orders'')])]"

text \<open>Scenario A of the specification, with a third column that has no comment at all.\<close>

definition scenario_a :: pyval where
  "scenario_a =
     table_of (PList [column ''id'' (PStr ''primary key''), column ''ts'' (PStr ''''),
                      PDict [(KStr ''Name'', PStr ''qty'')]])"

definition documented_table :: pyval where
  "documented_table = table_of (PList [column ''id'' (PStr ''primary key'')])"

definition bytes_table :: pyval where
  "bytes_table = table_of (PList [column ''id'' (PBytes ''key'')])"

definition empty_mapping_table :: pyval where
  "empty_mapping_table = PDict [(KStr ''StorageDescriptor'', PDict [(KStr ''Columns'', PDict [])])]"

definition sample_env :: "py_error + pyval \<Rightarrow> fs_outcome \<Rightarrow> env" where
  "sample_env fetch fs =
     \<lparr>glue_metadata_config = sample_config,
      session_client = (\<lambda>service. None),
      get_table = (\<lambda>database_name table_name catalog_id. fetch),
      update_table = (\<lambda>database_name ti. None),
      open_write = (\<lambda>file. fs),
      load_json = (\<lambda>file. Inr (PDict [(KStr ''ts'', PStr ''event timestamp'')]))\<rparr>"


text \<open>
  The loop of line 180 visits nothing: the path to \<open>Columns\<close> can be read and the value
  there has no element to iterate over.
\<close>

definition visits_nothing :: "pyval \<Rightarrow> bool" where
  "visits_nothing metadata =
     (case py_subscript metadata ''StorageDescriptor'' of
        Inl e \<Rightarrow> False
      | Inr sd \<Rightarrow>
          (case py_subscript sd ''Columns'' of
             Inl e \<Rightarrow> False
           | Inr columns \<Rightarrow> (case py_iter columns of Inr [] \<Rightarrow> True | _ \<Rightarrow> False)))"



section \<open>Properties of the snapshot writer\<close>

lemma writer_returns_none:
  "fst (write_metadata_and_missing_values E metadata missing_values output_file) = Inr PNone"
  by (simp add: write_metadata_and_missing_values_def split: prod.splits sum.splits)

lemma writer_prints_error:
  "fst (write_body E metadata missing_values output_file) = Inl e \<Longrightarrow>
   Printed (ErrorDuringMetadataWriting e)
     \<in> set (snd (write_metadata_and_missing_values E metadata missing_values output_file))"
  by (auto simp add: write_metadata_and_missing_values_def split: prod.splits sum.splits)

lemma null_fields_dict:
  "null_fields (PDict d)
     = Inr (PList (map (\<lambda>(k, v). of_key k) (filter (\<lambda>(k, v). v = PNone) d)))"
  by (simp add: null_fields_def)

lemma fetched_dict:
  "py_subscript response ''Table'' = Inr (PDict d) \<Longrightarrow>
   fetched E response =
     (Inr (PDict d),
      snd (write_metadata_and_missing_values E (PDict d)
             (PList (map (\<lambda>(k, v). of_key k) (filter (\<lambda>(k, v). v = PNone) d)))
             ''default_metadata.json''))"
  using writer_returns_none
          [of E "PDict d" "PList (map (\<lambda>(k, v). of_key k) (filter (\<lambda>(k, v). v = PNone) d))"
              "''default_metadata.json''"]
  by (auto simp add: fetched_def null_fields_dict split: prod.splits sum.splits)

text \<open>
  Claim C6. The snapshot write never propagates an error to its caller: for every
  environment, document, list of missing values and output file,
  \<open>write_metadata_and_missing_values\<close> returns \<^verbatim>\<open>None\<close>; whatever exception the body
  raises (while it builds the report, serializes it, or opens and writes the file) is
  printed as a warning; and the caller goes on: the fetch returns the document it
  retrieved, whatever happened to the snapshot.
\<close>

theorem snapshot_write_never_raises:
  "fst (write_metadata_and_missing_values E metadata missing_values output_file) = Inr PNone
   \<and> (\<forall>e. fst (write_body E metadata missing_values output_file) = Inl e \<longrightarrow>
          Printed (ErrorDuringMetadataWriting e)
            \<in> set (snd (write_metadata_and_missing_values E metadata missing_values output_file)))
   \<and> (\<forall>response d. py_subscript response ''Table'' = Inr (PDict d) \<longrightarrow>
          fst (fetched E response) = Inr (PDict d))"
  using writer_returns_none writer_prints_error fetched_dict by simp

text \<open>
  A column whose comment is a byte string fails to serialize, and a file that cannot be
  opened fails the write: both are caught.
\<close>

theorem snapshot_write_never_raises_witness:
  "fst (write_body (sample_env (Inr (PDict [(KStr ''Table'', bytes_table)])) WriteOk)
          bytes_table (PList []) ''default_metadata.json'')
     = Inl (TypeError (''Object of type '' @ quoted (type_repr (PBytes ''key''))
                       @ '' is not JSON serializable''))
   \<and> fst (write_body (sample_env (Inr (PDict [(KStr ''Table'', bytes_table)]))
                       (OpenFails (OSError ''Permission denied'')))
          scenario_a (PList []) ''default_metadata.json'')
     = Inl (OSError ''Permission denied'')
   \<and> fst (write_metadata_and_missing_values
            (sample_env (Inr (PDict [(KStr ''Table'', bytes_table)])) WriteOk)
            bytes_table (PList []) ''default_metadata.json'') = Inr PNone
   \<and> Printed (ErrorDuringMetadataWriting
               (TypeError (''Object of type '' @ quoted (type_repr (PBytes ''key''))
                           @ '' is not JSON serializable'')))
       \<in> set (snd (write_metadata_and_missing_values
                     (sample_env (Inr (PDict [(KStr ''Table'', bytes_table)])) WriteOk)
                     bytes_table (PList []) ''default_metadata.json''))
   \<and> py_subscript (PDict [(KStr ''Table'', bytes_table)]) ''Table'' = Inr bytes_table
   \<and> fst (fetched (sample_env (Inr (PDict [(KStr ''Table'', bytes_table)])) WriteOk)
            (PDict [(KStr ''Table'', bytes_table)])) = Inr bytes_table"
proof -
  let ?E = "sample_env (Inr (PDict [(KStr ''Table'', bytes_table)])) WriteOk"
  have a: "fst (write_body ?E bytes_table (PList []) ''default_metadata.json'')
     = Inl (TypeError (''Object of type '' @ quoted (type_repr (PBytes ''key''))
                       @ '' is not JSON serializable''))"
    by code_simp
  have b: "fst (write_body (sample_env (Inr (PDict [(KStr ''Table'', bytes_table)]))
                       (OpenFails (OSError ''Permission denied'')))
          scenario_a (PList []) ''default_metadata.json'')
     = Inl (OSError ''Permission denied'')"
    by code_simp
  have c: "py_subscript (PDict [(KStr ''Table'', bytes_table)]) ''Table'' = Inr bytes_table"
    by code_simp
  have d: "bytes_table = PDict [(KStr ''Name'', PStr ''orders''), (KStr ''ts'', PNone),
            (KStr ''StorageDescriptor'',
             PDict [(KStr ''Columns'', PList [column ''id'' (PBytes ''key'')]),
                    (KStr ''Location'', PStr ''s3://bucket/orders'')])]"
    by (simp add: bytes_table_def table_of_def)
  from snapshot_write_never_raises
         [of ?E bytes_table "PList []" "''default_metadata.json''"] a b c d
  show ?thesis by metis
qed

section \<open>Properties of the serialization\<close>





lemma serialize_datetime_other:
  "(\<forall>d. obj \<noteq> PDatetime d) \<Longrightarrow>
   serialize_datetime obj
     = Inl (TypeError (''Object of type '' @ quoted (type_repr obj) @ '' is not JSON serializable''))"
  by (cases obj) (simp_all add: serialize_datetime_def)










section \<open>Properties of the fetch\<close>

lemma write_body_events:
  "ev \<in> set (snd (write_body E metadata missing_values output_file)) \<Longrightarrow>
   (ev = FileOpened output_file \<or> (\<exists>doc. ev = FileWritten output_file doc))"
  by (auto simp add: write_body_def split: sum.splits fs_outcome.splits)

lemma writer_events:
  "\<exists>evs. snd (write_metadata_and_missing_values E metadata missing_values output_file)
           = SnapshotAttempt output_file # evs
         \<and> \<not> list_ex is_snapshot_attempt evs \<and> \<not> list_ex is_update evs"
proof -
  obtain r evs where w: "write_body E metadata missing_values output_file = (r, evs)"
    by (cases "write_body E metadata missing_values output_file")
  have "\<not> list_ex is_snapshot_attempt evs \<and> \<not> list_ex is_update evs"
    using write_body_events[of _ E metadata missing_values output_file] w
    by (fastforce simp add: list_ex_iff is_snapshot_attempt_def is_update_def)
  then show ?thesis
    using w by (cases r) (simp_all add: write_metadata_and_missing_values_def
                            is_snapshot_attempt_def is_update_def)
qed

lemma fetched_not_dict:
  assumes "\<not> (\<exists>d. py_subscript response ''Table'' = Inr (PDict d))"
  shows "\<exists>e. fetched E response = (Inl e, [])"
proof (cases "py_subscript response ''Table''")
  case (Inl e)
  then show ?thesis by (simp add: fetched_def)
next
  case (Inr metadata)
  with assms have "\<forall>d. metadata \<noteq> PDict d" by simp
  then have "\<exists>e. null_fields metadata = Inl e"
    by (cases metadata) (simp_all add: null_fields_def)
  with Inr show ?thesis by (auto simp add: fetched_def)
qed

lemma get_table_metadata_failed:
  assumes "login_to_aws_glue E = None" and "fetched_document E = None"
  shows "\<exists>m. get_table_metadata E database_name table_name
           = (Inr PNone, [GetTable (DATABASE_NAME (get_aws_token E)) (TABLE_NAME (get_aws_token E))
                            (CATALOG_ID (get_aws_token E)), Printed m])"
proof (cases "get_table E (DATABASE_NAME (get_aws_token E)) (TABLE_NAME (get_aws_token E))
                (CATALOG_ID (get_aws_token E))")
  case (Inl e)
  with assms(1) show ?thesis
    by (cases e) (simp_all add: get_table_metadata_def Let_def)
next
  case (Inr response)
  with assms(2) have "\<not> (\<exists>d. py_subscript response ''Table'' = Inr (PDict d))"
    by (auto simp add: fetched_document_def Let_def)
  then obtain e where "fetched E response = (Inl e, [])"
    using fetched_not_dict by blast
  with Inr assms(1) show ?thesis
    by (cases e) (simp_all add: get_table_metadata_def Let_def)
qed

lemma get_table_metadata_fetched:
  assumes "login_to_aws_glue E = None" and "fetched_document E = Some md"
  shows "\<exists>evs. get_table_metadata E database_name table_name
           = (Inr md, GetTable (DATABASE_NAME (get_aws_token E)) (TABLE_NAME (get_aws_token E))
                        (CATALOG_ID (get_aws_token E))
                      # SnapshotAttempt ''default_metadata.json'' # evs)
          \<and> \<not> list_ex is_snapshot_attempt evs \<and> \<not> list_ex is_update evs \<and> (\<exists>d. md = PDict d)"
proof -
  from assms(2) obtain response d where
    r: "get_table E (DATABASE_NAME (get_aws_token E)) (TABLE_NAME (get_aws_token E))
          (CATALOG_ID (get_aws_token E)) = Inr response"
    and t: "py_subscript response ''Table'' = Inr (PDict d)" and m: "md = PDict d"
    by (auto simp add: fetched_document_def Let_def split: sum.splits pyval.splits)
  obtain evs where
    w: "snd (write_metadata_and_missing_values E (PDict d)
               (PList (map (\<lambda>(k, v). of_key k) (filter (\<lambda>(k, v). v = PNone) d)))
               ''default_metadata.json'') = SnapshotAttempt ''default_metadata.json'' # evs"
    and n: "\<not> list_ex is_snapshot_attempt evs" "\<not> list_ex is_update evs"
    using writer_events by blast
  from fetched_dict [OF t, of E] w have "fetched E response
      = (Inr (PDict d), SnapshotAttempt ''default_metadata.json'' # evs)"
    by simp
  with r assms(1) m n show ?thesis
    by (simp add: get_table_metadata_def Let_def)
qed

text \<open>
  Claim C4. For every fetch made with a catalog client (the creation of the client is
  session establishment, outside the fetch): when no metadata document is retrieved,
  because \<open>get_table\<close> raises (the table does not exist, or any other failure) or
  its response holds no document, \<open>get_table_metadata\<close> returns \<^verbatim>\<open>None\<close> and no snapshot
  write is attempted; when a document is retrieved, it is returned and the write of the
  "before" snapshot \<^verbatim>\<open>default_metadata.json\<close> is attempted, once. So the write is
  attempted if and only if the fetch succeeded.
\<close>

theorem fetch_sentinel_and_before_snapshot:
  assumes "login_to_aws_glue E = None"
  shows "(fetched_document E = None \<longrightarrow>
            fst (get_table_metadata E database_name table_name) = Inr PNone
            \<and> \<not> list_ex is_snapshot_attempt (snd (get_table_metadata E database_name table_name)))
       \<and> (\<forall>md. fetched_document E = Some md \<longrightarrow>
            fst (get_table_metadata E database_name table_name) = Inr md \<and> md \<noteq> PNone
            \<and> length (filter is_snapshot_attempt
                        (snd (get_table_metadata E database_name table_name))) = 1
            \<and> SnapshotAttempt ''default_metadata.json''
                \<in> set (snd (get_table_metadata E database_name table_name)))
       \<and> (\<forall>e. get_table E (DATABASE_NAME (get_aws_token E)) (TABLE_NAME (get_aws_token E))
                 (CATALOG_ID (get_aws_token E)) = Inl e \<longrightarrow> fetched_document E = None)"
proof (intro conjI impI allI)
  assume "fetched_document E = None"
  from get_table_metadata_failed [OF assms this, of database_name table_name]
  show "fst (get_table_metadata E database_name table_name) = Inr PNone"
    and "\<not> list_ex is_snapshot_attempt (snd (get_table_metadata E database_name table_name))"
    by (auto simp add: is_snapshot_attempt_def)
next
  fix md assume "fetched_document E = Some md"
  from get_table_metadata_fetched [OF assms this, of database_name table_name]
  obtain evs where g: "get_table_metadata E database_name table_name
           = (Inr md, GetTable (DATABASE_NAME (get_aws_token E)) (TABLE_NAME (get_aws_token E))
                        (CATALOG_ID (get_aws_token E))
                      # SnapshotAttempt ''default_metadata.json'' # evs)"
    and n: "\<not> list_ex is_snapshot_attempt evs" and d: "\<exists>d. md = PDict d"
    by blast
  from n have f: "filter is_snapshot_attempt evs = []"
    by (simp add: list_ex_iff filter_empty_conv)
  show "fst (get_table_metadata E database_name table_name) = Inr md" using g by simp
  show "md \<noteq> PNone" using d by auto
  show "length (filter is_snapshot_attempt
                        (snd (get_table_metadata E database_name table_name))) = 1"
    using g f by (simp add: is_snapshot_attempt_def)
  show "SnapshotAttempt ''default_metadata.json''
                \<in> set (snd (get_table_metadata E database_name table_name))"
    using g by simp
next
  fix e assume "get_table E (DATABASE_NAME (get_aws_token E)) (TABLE_NAME (get_aws_token E))
                 (CATALOG_ID (get_aws_token E)) = Inl e"
  then show "fetched_document E = None"
    by (simp add: fetched_document_def Let_def)
qed

text \<open>A table that does not exist, a fetch that is refused, and Scenario A fetched.\<close>

theorem fetch_sentinel_and_before_snapshot_witness:
  "login_to_aws_glue (sample_env (Inl EntityNotFoundException) WriteOk) = None
   \<and> fetched_document (sample_env (Inl EntityNotFoundException) WriteOk) = None
   \<and> get_table_metadata (sample_env (Inl EntityNotFoundException) WriteOk) ''sales'' ''orders''
       = (Inr PNone, [GetTable ''sales'' ''orders'' ''1'', Printed (TableNotFound ''orders'' ''sales'')])
   \<and> fst (get_table_metadata (sample_env (Inl (ClientError ''AccessDenied'')) WriteOk)
             ''sales'' ''orders'') = Inr PNone
   \<and> login_to_aws_glue (sample_env (Inr (PDict [(KStr ''Table'', scenario_a)])) WriteOk) = None
   \<and> fetched_document (sample_env (Inr (PDict [(KStr ''Table'', scenario_a)])) WriteOk)
       = Some scenario_a
   \<and> fst (get_table_metadata (sample_env (Inr (PDict [(KStr ''Table'', scenario_a)])) WriteOk)
             ''sales'' ''orders'') = Inr scenario_a
   \<and> length (filter is_snapshot_attempt
        (snd (get_table_metadata (sample_env (Inr (PDict [(KStr ''Table'', scenario_a)])) WriteOk)
                ''sales'' ''orders''))) = 1"
proof -
  let ?N = "sample_env (Inl EntityNotFoundException) WriteOk"
  let ?C = "sample_env (Inl (ClientError ''AccessDenied'')) WriteOk"
  let ?A = "sample_env (Inr (PDict [(KStr ''Table'', scenario_a)])) WriteOk"
  have a: "login_to_aws_glue ?N = None" "login_to_aws_glue ?C = None" "login_to_aws_glue ?A = None"
    by (simp_all add: login_to_aws_glue_def sample_env_def)
  have b: "fetched_document ?N = None" "fetched_document ?C = None"
    by (simp_all add: fetched_document_def sample_env_def)
  have c: "fetched_document ?A = Some scenario_a"
    by code_simp
  have d: "get_table_metadata ?N ''sales'' ''orders''
       = (Inr PNone, [GetTable ''sales'' ''orders'' ''1'', Printed (TableNotFound ''orders'' ''sales'')])"
    by code_simp
  from fetch_sentinel_and_before_snapshot [OF a(1), of "''sales''" "''orders''"]
       fetch_sentinel_and_before_snapshot [OF a(2), of "''sales''" "''orders''"]
       fetch_sentinel_and_before_snapshot [OF a(3), of "''sales''" "''orders''"]
       a b c d
  show ?thesis by metis
qed

section \<open>Properties of the merge\<close>

lemma columns_of_subscripts:
  assumes "columns_of metadata = Some cols"
  shows "\<exists>sd. py_subscript metadata ''StorageDescriptor'' = Inr (PDict sd)
            \<and> py_subscript (PDict sd) ''Columns'' = Inr (PList cols)
            \<and> py_get metadata ''StorageDescriptor'' (PDict []) = Inr (PDict sd)
            \<and> py_get (PDict sd) ''Columns'' (PList []) = Inr (PList cols)"
  using assms
  by (auto simp add: columns_of_def py_subscript_def py_getitem_def py_get_def
           split: pyval.splits option.splits)

lemma wf_column_comment:
  assumes "wf_column c"
  shows "\<exists>v. py_get c ''Comment'' PNone = Inr v \<and> is_blank v = Inr (undocumented c)
           \<and> (\<not> undocumented c \<longrightarrow> v = PStr (current_comment c))"
  using assms
  by (auto simp add: wf_column_def column_comment_def py_get_def is_blank_def undocumented_def
        current_comment_def split: pyval.splits option.splits)

lemma wf_column_name:
  assumes "wf_column c"
  shows "py_subscript c ''Name'' = Inr (PStr (name_of c))"
    and "py_get c ''Name'' PNone = Inr (PStr (name_of c))"
  using assms
  by (auto simp add: wf_column_def column_name_def name_of_def py_get_def py_subscript_def
        py_getitem_def split: pyval.splits option.splits)

lemma find_missing_documented:
  "list_all wf_column cols \<Longrightarrow> \<not> list_ex undocumented cols \<Longrightarrow> find_missing cols mc = Inr mc"
proof (induction cols)
  case Nil
  show ?case by simp
next
  case (Cons c cols)
  then have "wf_column c" and "\<not> undocumented c" by simp_all
  with wf_column_comment [of c] obtain v where
    "py_get c ''Comment'' PNone = Inr v" "is_blank v = Inr False" by auto
  with Cons show ?case by simp
qed

lemma merge_trace_shape:
  "trace (add_update_missing_values E database_name table_name metadata) = []
   \<or> trace (add_update_missing_values E database_name table_name metadata) = [Printed NoMissingColumns]
   \<or> trace (add_update_missing_values E database_name table_name metadata) = [FileRead ''new_values.json'']
   \<or> (\<exists>ti rest. table_input table_name
                    (document (add_update_missing_values E database_name table_name metadata)) = Inr ti
         \<and> trace (add_update_missing_values E database_name table_name metadata)
             = FileRead ''new_values.json'' # UpdateTable database_name ti # rest
         \<and> (rest = [] \<or> rest = [Printed UpdatedSuccessfully]))"
  by (simp add: add_update_missing_values_def Let_def
           split: sum.splits prod.splits option.splits)

text \<open>
  Claim C9. The update request holds only the table name and the full column sequence:
  every \<open>update_table\<close> call of \<open>add_update_missing_values\<close> is made for the given
  database with a \<open>TableInput\<close> of exactly the two keys \<open>Name\<close> (the table name) and
  \<open>StorageDescriptor\<close>, the latter holding only \<open>Columns\<close>, the column sequence of
  the merged document; and at most one such call is made.
\<close>

theorem update_request_is_name_and_columns:
  "(\<forall>db ti. UpdateTable db ti
             \<in> set (trace (add_update_missing_values E database_name table_name metadata)) \<longrightarrow>
      db = database_name
      \<and> (\<exists>sd columns.
            py_subscript (document (add_update_missing_values E database_name table_name metadata))
              ''StorageDescriptor'' = Inr sd
            \<and> py_subscript sd ''Columns'' = Inr columns
            \<and> ti = PDict [(KStr ''Name'', PStr table_name),
                           (KStr ''StorageDescriptor'', PDict [(KStr ''Columns'', columns)])]))
   \<and> length (filter is_update
               (trace (add_update_missing_values E database_name table_name metadata))) \<le> 1"
  using merge_trace_shape [of E database_name table_name metadata]
  by (auto simp add: table_input_def is_update_def split: sum.splits)

text \<open>Scenario A merged with the override of Scenario B.\<close>

theorem update_request_is_name_and_columns_witness:
  "UpdateTable ''sales''
     (PDict [(KStr ''Name'', PStr ''orders''),
             (KStr ''StorageDescriptor'',
              PDict [(KStr ''Columns'',
                      PList [column ''id'' (PStr ''primary key''),
                             column ''ts'' (PStr ''event timestamp''),
                             PDict [(KStr ''Name'', PStr ''qty''), (KStr ''Comment'', PStr '''')]])])])
     \<in> set (trace (add_update_missing_values (sample_env (Inl EntityNotFoundException) WriteOk)
                     ''sales'' ''orders'' scenario_a))
   \<and> py_subscript (document (add_update_missing_values
                               (sample_env (Inl EntityNotFoundException) WriteOk)
                               ''sales'' ''orders'' scenario_a)) ''StorageDescriptor''
       = Inr (PDict [(KStr ''Columns'',
                      PList [column ''id'' (PStr ''primary key''),
                             column ''ts'' (PStr ''event timestamp''),
                             PDict [(KStr ''Name'', PStr ''qty''), (KStr ''Comment'', PStr '''')]]),
                     (KStr ''Location'', PStr ''s3://bucket/orders'')])
   \<and> length (filter is_update
               (trace (add_update_missing_values (sample_env (Inl EntityNotFoundException) WriteOk)
                         ''sales'' ''orders'' scenario_a))) \<le> 1"
proof -
  let ?E = "sample_env (Inl EntityNotFoundException) WriteOk"
  have a: "UpdateTable ''sales''
     (PDict [(KStr ''Name'', PStr ''orders''),
             (KStr ''StorageDescriptor'',
              PDict [(KStr ''Columns'',
                      PList [column ''id'' (PStr ''primary key''),
                             column ''ts'' (PStr ''event timestamp''),
                             PDict [(KStr ''Name'', PStr ''qty''), (KStr ''Comment'', PStr '''')]])])])
     \<in> set (trace (add_update_missing_values ?E ''sales'' ''orders'' scenario_a))"
    by code_simp
  have b: "py_subscript (document (add_update_missing_values ?E ''sales'' ''orders'' scenario_a))
             ''StorageDescriptor''
       = Inr (PDict [(KStr ''Columns'',
                      PList [column ''id'' (PStr ''primary key''),
                             column ''ts'' (PStr ''event timestamp''),
                             PDict [(KStr ''Name'', PStr ''qty''), (KStr ''Comment'', PStr '''')]]),
                     (KStr ''Location'', PStr ''s3://bucket/orders'')])"
    by code_simp
  from update_request_is_name_and_columns [of ?E "''sales''" "''orders''" scenario_a] a b
  show ?thesis by blast
qed

lemma merge_all_documented:
  assumes "columns_of metadata = Some cols" and "list_all wf_column cols"
    and "\<not> list_ex undocumented cols"
  shows "add_update_missing_values E database_name table_name metadata
           = \<lparr>returned = Inr (PDict []), document = metadata, trace = [Printed NoMissingColumns]\<rparr>"
proof -
  from columns_of_subscripts [OF assms(1)] obtain sd where
    "py_subscript metadata ''StorageDescriptor'' = Inr (PDict sd)"
    "py_subscript (PDict sd) ''Columns'' = Inr (PList cols)" by blast
  moreover have "py_iter (PList cols) = Inr cols" by (simp add: py_iter_def)
  moreover have "find_missing cols [] = Inr []"
    using find_missing_documented assms(2,3) by blast
  ultimately show ?thesis
    by (simp add: add_update_missing_values_def Let_def)
qed


text \<open>
  Claim C3, as amended. For every metadata document in which no column is undocumented,
  the merge leaves the document unchanged, does not read the override file and never
  calls \<open>update_table\<close>; the value it returns is the empty dictionary \<^verbatim>\<open>{}\<close>, not its
  input.
\<close>

theorem merge_short_circuit_returns_empty:
  assumes "columns_of metadata = Some cols" and "list_all wf_column cols"
    and "\<not> list_ex undocumented cols"
  shows "returned (add_update_missing_values E database_name table_name metadata) = Inr (PDict [])
       \<and> document (add_update_missing_values E database_name table_name metadata) = metadata
       \<and> trace (add_update_missing_values E database_name table_name metadata)
           = [Printed NoMissingColumns]
       \<and> \<not> list_ex is_file_read (trace (add_update_missing_values E database_name table_name metadata))
       \<and> \<not> list_ex is_update (trace (add_update_missing_values E database_name table_name metadata))"
  using merge_all_documented [OF assms, of E database_name table_name]
  by (simp add: is_file_read_def is_update_def)

text \<open>A table whose only column is documented.\<close>

theorem merge_short_circuit_returns_empty_witness:
  "columns_of documented_table = Some [column ''id'' (PStr ''primary key'')]
   \<and> list_all wf_column [column ''id'' (PStr ''primary key'')]
   \<and> \<not> list_ex undocumented [column ''id'' (PStr ''primary key'')]
   \<and> returned (add_update_missing_values (sample_env (Inl EntityNotFoundException) WriteOk)
                 ''sales'' ''orders'' documented_table) = Inr (PDict [])
   \<and> document (add_update_missing_values (sample_env (Inl EntityNotFoundException) WriteOk)
                 ''sales'' ''orders'' documented_table) = documented_table
   \<and> trace (add_update_missing_values (sample_env (Inl EntityNotFoundException) WriteOk)
                 ''sales'' ''orders'' documented_table) = [Printed NoMissingColumns]"
proof -
  have a: "columns_of documented_table = Some [column ''id'' (PStr ''primary key'')]"
    by code_simp
  have b: "list_all wf_column [column ''id'' (PStr ''primary key'')]"
    by code_simp
  have c: "\<not> list_ex undocumented [column ''id'' (PStr ''primary key'')]"
    by code_simp
  from merge_short_circuit_returns_empty
         [OF a b c, of "sample_env (Inl EntityNotFoundException) WriteOk" "''sales''" "''orders''"]
       a b c
  show ?thesis by simp
qed

text \<open>
  Claim C3 as stated fails: on that table no column is undocumented, and the merge
  returns \<^verbatim>\<open>{}\<close>, which is not the document.
\<close>

theorem merge_short_circuit_counterexample:
  "columns_of documented_table = Some [column ''id'' (PStr ''primary key'')]
   \<and> \<not> undocumented (column ''id'' (PStr ''primary key''))
   \<and> returned (add_update_missing_values (sample_env (Inl EntityNotFoundException) WriteOk)
                 ''sales'' ''orders'' documented_table) = Inr (PDict [])
   \<and> returned (add_update_missing_values (sample_env (Inl EntityNotFoundException) WriteOk)
                 ''sales'' ''orders'' documented_table) \<noteq> Inr documented_table"
  by code_simp

lemma iterated_not_dict:
  assumes "py_iter columns = Inr cs" and "\<forall>l. columns \<noteq> PList l"
  shows "\<forall>c\<in>set cs. \<forall>d. c \<noteq> PDict d"
proof -
  have k: "\<And>k d. of_key k \<noteq> PDict d" "\<And>k d. PDict d \<noteq> of_key k"
    subgoal for k d by (cases k) simp_all
    subgoal for k d by (cases k) simp_all
    done
  from assms show ?thesis
    by (cases columns) (auto simp add: py_iter_def k)
qed

lemma find_missing_not_dicts:
  assumes "\<forall>c\<in>set cs. \<forall>d. c \<noteq> PDict d"
  shows "cs = [] \<and> find_missing cs mc = Inr mc \<or> (\<exists>e. find_missing cs mc = Inl e)"
proof (cases cs)
  case Nil
  then show ?thesis by simp
next
  case (Cons c rest)
  with assms have "\<forall>d. c \<noteq> PDict d" by simp
  then have "\<exists>e. py_get c ''Comment'' PNone = Inl e"
    by (cases c) (simp_all add: py_get_def)
  with Cons show ?thesis by auto
qed

lemma no_columns_cases:
  assumes "columns_of metadata = None"
  shows "(\<exists>e. py_subscript metadata ''StorageDescriptor'' = Inl e)
       \<or> (\<exists>sd. py_subscript metadata ''StorageDescriptor'' = Inr sd
              \<and> ((\<exists>e. py_subscript sd ''Columns'' = Inl e)
                   \<or> (\<exists>columns. py_subscript sd ''Columns'' = Inr columns
                         \<and> (\<forall>l. columns \<noteq> PList l))))"
proof (cases "py_subscript metadata ''StorageDescriptor''")
  case (Inl e)
  then show ?thesis by simp
next
  case sd: (Inr sd)
  show ?thesis
  proof (cases "py_subscript sd ''Columns''")
    case (Inl e)
    with sd show ?thesis by simp
  next
    case (Inr columns)
    have "\<forall>l. columns \<noteq> PList l"
    proof (intro allI notI)
      fix l assume "columns = PList l"
      with sd Inr have "columns_of metadata = Some l"
        by (auto simp add: columns_of_def py_subscript_def py_getitem_def as_index_def
              split: pyval.splits option.splits)
      with assms show False by simp
    qed
    with sd Inr show ?thesis by simp
  qed
qed

lemma merge_visits_nothing:
  assumes "visits_nothing metadata"
  shows "add_update_missing_values E database_name table_name metadata
           = \<lparr>returned = Inr (PDict []), document = metadata, trace = [Printed NoMissingColumns]\<rparr>"
  using assms
  by (auto simp add: visits_nothing_def add_update_missing_values_def Let_def
        split: sum.splits list.splits)

lemma merge_raises_unless_nothing:
  assumes "columns_of metadata = None" and "\<not> visits_nothing metadata"
  shows "\<exists>e. add_update_missing_values E database_name table_name metadata
               = \<lparr>returned = Inl e, document = metadata, trace = []\<rparr>"
proof -
  from no_columns_cases [OF assms(1)] consider
      (a) e where "py_subscript metadata ''StorageDescriptor'' = Inl e"
    | (b) sd e where "py_subscript metadata ''StorageDescriptor'' = Inr sd"
        "py_subscript sd ''Columns'' = Inl e"
    | (c) sd columns where "py_subscript metadata ''StorageDescriptor'' = Inr sd"
        "py_subscript sd ''Columns'' = Inr columns" "\<forall>l. columns \<noteq> PList l"
    by blast
  then show ?thesis
  proof cases
    case a
    then show ?thesis by (simp add: add_update_missing_values_def Let_def)
  next
    case b
    then show ?thesis by (simp add: add_update_missing_values_def Let_def)
  next
    case c
    show ?thesis
    proof (cases "py_iter columns")
      case (Inl e)
      with c show ?thesis by (simp add: add_update_missing_values_def Let_def)
    next
      case (Inr cs)
      with c assms(2) have "cs \<noteq> []"
        by (auto simp add: visits_nothing_def)
      with iterated_not_dict [OF Inr c(3)] find_missing_not_dicts [of cs "[]"]
      obtain e where "find_missing cs [] = Inl e" by blast
      with c Inr show ?thesis
        by (simp add: add_update_missing_values_def Let_def)
    qed
  qed
qed

lemma visits_nothing_cases:
  assumes "columns_of metadata = None" and "visits_nothing metadata"
  shows "\<exists>sd columns. py_subscript metadata ''StorageDescriptor'' = Inr sd
           \<and> py_subscript sd ''Columns'' = Inr columns
           \<and> (columns = PDict [] \<or> columns = PStr '''' \<or> columns = PBytes '''')"
proof -
  from assms(2) obtain sd columns where
    p: "py_subscript metadata ''StorageDescriptor'' = Inr sd"
       "py_subscript sd ''Columns'' = Inr columns" "py_iter columns = Inr []"
    by (auto simp add: visits_nothing_def split: sum.splits list.splits)
  from no_columns_cases [OF assms(1)] p have "\<forall>l. columns \<noteq> PList l" by auto
  with p(3) have "columns = PDict [] \<or> columns = PStr '''' \<or> columns = PBytes ''''"
    by (cases columns) (auto simp add: py_iter_def)
  with p show ?thesis by blast
qed

lemma merge_raises_without_path:
  assumes "(\<exists>e. py_subscript metadata ''StorageDescriptor'' = Inl e)
         \<or> (\<exists>sd e. py_subscript metadata ''StorageDescriptor'' = Inr sd
                    \<and> py_subscript sd ''Columns'' = Inl e)"
  shows "(\<exists>e. returned (add_update_missing_values E database_name table_name metadata) = Inl e)
       \<and> trace (add_update_missing_values E database_name table_name metadata) = []
       \<and> document (add_update_missing_values E database_name table_name metadata) = metadata"
  using assms by (auto simp add: add_update_missing_values_def Let_def)

lemma merge_none:
  "add_update_missing_values E database_name table_name PNone
     = \<lparr>returned = Inl (TypeError (quoted ''NoneType'' @ '' object is not subscriptable'')),
        document = PNone, trace = []\<rparr>"
  by (simp add: add_update_missing_values_def Let_def py_subscript_def py_getitem_def)

lemma main_failed_fetch:
  assumes "fetched_document E = None"
  shows "\<not> list_ex is_update (main E) \<and> \<not> list_ex is_file_read (main E)"
proof (cases "login_to_aws_s3 E")
  case (Some e)
  then show ?thesis
    by (simp add: main_def main_body_def Let_def is_update_def is_file_read_def)
next
  case s3: None
  show ?thesis
  proof (cases "login_to_aws_glue E")
    case (Some e)
    with s3 show ?thesis
      by (simp add: main_def main_body_def Let_def is_update_def is_file_read_def)
  next
    case None
    from get_table_metadata_failed [OF None assms]
    obtain m where "get_table_metadata E (DATABASE_NAME (get_aws_token E)) (TABLE_NAME (get_aws_token E))
           = (Inr PNone, [GetTable (DATABASE_NAME (get_aws_token E)) (TABLE_NAME (get_aws_token E))
                            (CATALOG_ID (get_aws_token E)), Printed m])"
      by blast
    with s3 None show ?thesis
      by (simp add: main_def main_body_def Let_def merge_none is_update_def is_file_read_def)
  qed
qed

text \<open>
  Claim C10, as amended. For every input that does not hold a list under
  \<open>metadata['StorageDescriptor']['Columns']\<close>, the merge neither reads the override file
  nor calls \<open>update_table\<close>, and leaves its input as it is. It raises, unless the loop
  over \<open>Columns\<close> visits nothing, which only an empty dictionary, string or byte string
  under \<open>Columns\<close> brings about: then it returns \<^verbatim>\<open>{}\<close>. It raises whenever the path
  to \<open>Columns\<close> cannot be read, so for the \<^verbatim>\<open>None\<close> that a failed fetch returns; and a
  run of \<open>main\<close> whose fetch retrieves no document submits no update.
\<close>

theorem merge_needs_columns:
  "(columns_of metadata = None \<longrightarrow>
      document (add_update_missing_values E database_name table_name metadata) = metadata
      \<and> \<not> list_ex is_file_read (trace (add_update_missing_values E database_name table_name metadata))
      \<and> \<not> list_ex is_update (trace (add_update_missing_values E database_name table_name metadata))
      \<and> (\<not> visits_nothing metadata \<longrightarrow>
            (\<exists>e. returned (add_update_missing_values E database_name table_name metadata) = Inl e)
            \<and> trace (add_update_missing_values E database_name table_name metadata) = [])
      \<and> (visits_nothing metadata \<longrightarrow>
            returned (add_update_missing_values E database_name table_name metadata) = Inr (PDict [])
            \<and> trace (add_update_missing_values E database_name table_name metadata)
                = [Printed NoMissingColumns]
            \<and> (\<exists>sd columns. py_subscript metadata ''StorageDescriptor'' = Inr sd
                  \<and> py_subscript sd ''Columns'' = Inr columns
                  \<and> (columns = PDict [] \<or> columns = PStr '''' \<or> columns = PBytes ''''))))
   \<and> ((\<exists>e. py_subscript metadata ''StorageDescriptor'' = Inl e)
        \<or> (\<exists>sd e. py_subscript metadata ''StorageDescriptor'' = Inr sd
                   \<and> py_subscript sd ''Columns'' = Inl e) \<longrightarrow>
      (\<exists>e. returned (add_update_missing_values E database_name table_name metadata) = Inl e)
      \<and> trace (add_update_missing_values E database_name table_name metadata) = [])
   \<and> (\<exists>e. returned (add_update_missing_values E database_name table_name PNone) = Inl e)
   \<and> trace (add_update_missing_values E database_name table_name PNone) = []
   \<and> (fetched_document E = None \<longrightarrow> \<not> list_ex is_update (main E))"
proof -
  let ?R = "add_update_missing_values E database_name table_name metadata"
  have r: "columns_of metadata = None \<longrightarrow> \<not> visits_nothing metadata \<longrightarrow>
             (\<exists>e. returned ?R = Inl e) \<and> trace ?R = [] \<and> document ?R = metadata"
    using merge_raises_unless_nothing [of metadata E database_name table_name] by auto
  have v: "visits_nothing metadata \<longrightarrow>
             returned ?R = Inr (PDict []) \<and> trace ?R = [Printed NoMissingColumns]
             \<and> document ?R = metadata"
    using merge_visits_nothing [of metadata E database_name table_name] by simp
  have "columns_of metadata = None \<longrightarrow>
      document ?R = metadata
      \<and> \<not> list_ex is_file_read (trace ?R)
      \<and> \<not> list_ex is_update (trace ?R)
      \<and> (\<not> visits_nothing metadata \<longrightarrow> (\<exists>e. returned ?R = Inl e) \<and> trace ?R = [])
      \<and> (visits_nothing metadata \<longrightarrow>
            returned ?R = Inr (PDict []) \<and> trace ?R = [Printed NoMissingColumns]
            \<and> (\<exists>sd columns. py_subscript metadata ''StorageDescriptor'' = Inr sd
                  \<and> py_subscript sd ''Columns'' = Inr columns
                  \<and> (columns = PDict [] \<or> columns = PStr '''' \<or> columns = PBytes '''')))"
  proof (cases "visits_nothing metadata")
    case True
    with v visits_nothing_cases [of metadata] show ?thesis
      by (simp add: is_file_read_def is_update_def)
  next
    case False
    with r show ?thesis
      by (auto simp add: is_file_read_def is_update_def)
  qed
  moreover have "(\<exists>e. returned (add_update_missing_values E database_name table_name PNone) = Inl e)
      \<and> trace (add_update_missing_values E database_name table_name PNone) = []"
    by (simp add: merge_none)
  ultimately show ?thesis
    using merge_raises_without_path [of metadata E database_name table_name]
          main_failed_fetch [of E]
    by blast
qed

text \<open>
  A document without \<open>StorageDescriptor\<close>, one whose \<open>Columns\<close> is the string
  \<^verbatim>\<open>"abc"\<close>, one whose \<open>Columns\<close> is an empty mapping, and a run for a table that does
  not exist.
\<close>

theorem merge_needs_columns_witness:
  "columns_of (PDict [(KStr ''Name'', PStr ''orders'')]) = None
   \<and> py_subscript (PDict [(KStr ''Name'', PStr ''orders'')]) ''StorageDescriptor''
       = Inl (KeyError (KStr ''StorageDescriptor''))
   \<and> (\<exists>e. returned (add_update_missing_values (sample_env (Inl EntityNotFoundException) WriteOk)
                       ''sales'' ''orders'' (PDict [(KStr ''Name'', PStr ''orders'')])) = Inl e)
   \<and> trace (add_update_missing_values (sample_env (Inl EntityNotFoundException) WriteOk)
               ''sales'' ''orders'' (PDict [(KStr ''Name'', PStr ''orders'')])) = []
   \<and> columns_of (table_of (PStr ''abc'')) = None
   \<and> \<not> visits_nothing (table_of (PStr ''abc''))
   \<and> (\<exists>e. returned (add_update_missing_values (sample_env (Inl EntityNotFoundException) WriteOk)
                       ''sales'' ''orders'' (table_of (PStr ''abc''))) = Inl e)
   \<and> trace (add_update_missing_values (sample_env (Inl EntityNotFoundException) WriteOk)
               ''sales'' ''orders'' (table_of (PStr ''abc''))) = []
   \<and> columns_of empty_mapping_table = None
   \<and> visits_nothing empty_mapping_table
   \<and> returned (add_update_missing_values (sample_env (Inl EntityNotFoundException) WriteOk)
                 ''sales'' ''orders'' empty_mapping_table) = Inr (PDict [])
   \<and> trace (add_update_missing_values (sample_env (Inl EntityNotFoundException) WriteOk)
               ''sales'' ''orders'' empty_mapping_table) = [Printed NoMissingColumns]
   \<and> fetched_document (sample_env (Inl EntityNotFoundException) WriteOk) = None
   \<and> \<not> list_ex is_update (main (sample_env (Inl EntityNotFoundException) WriteOk))"
proof -
  let ?E = "sample_env (Inl EntityNotFoundException) WriteOk"
  let ?m = "PDict [(KStr ''Name'', PStr ''orders'')]"
  have a: "columns_of ?m = None"
    by code_simp
  have b: "py_subscript ?m ''StorageDescriptor'' = Inl (KeyError (KStr ''StorageDescriptor''))"
    by code_simp
  have c: "fetched_document ?E = None"
    by code_simp
  have d: "columns_of (table_of (PStr ''abc'')) = None"
    by code_simp
  have e: "\<not> visits_nothing (table_of (PStr ''abc''))"
    by code_simp
  have f: "columns_of empty_mapping_table = None"
    by code_simp
  have g: "visits_nothing empty_mapping_table"
    by code_simp
  from merge_needs_columns [of ?m ?E "''sales''" "''orders''"] a b c
  have 1: "(\<exists>e. returned (add_update_missing_values ?E ''sales'' ''orders'' ?m) = Inl e)
           \<and> trace (add_update_missing_values ?E ''sales'' ''orders'' ?m) = []
           \<and> \<not> list_ex is_update (main ?E)"
    by blast
  from merge_needs_columns [of "table_of (PStr ''abc'')" ?E "''sales''" "''orders''"] d e
  have 2: "(\<exists>e. returned (add_update_missing_values ?E ''sales'' ''orders''
                           (table_of (PStr ''abc''))) = Inl e)
           \<and> trace (add_update_missing_values ?E ''sales'' ''orders''
                      (table_of (PStr ''abc''))) = []"
    by blast
  from merge_needs_columns [of empty_mapping_table ?E "''sales''" "''orders''"] f g
  have 3: "returned (add_update_missing_values ?E ''sales'' ''orders'' empty_mapping_table)
             = Inr (PDict [])
           \<and> trace (add_update_missing_values ?E ''sales'' ''orders'' empty_mapping_table)
               = [Printed NoMissingColumns]"
    by blast
  from 1 2 3 a b c d e f g show ?thesis by blast
qed

text \<open>
  Claim C10 as stated fails: a document whose \<open>Columns\<close> is an empty mapping does not
  have the shape, and the merge returns \<^verbatim>\<open>{}\<close> without raising.
\<close>

theorem merge_needs_columns_counterexample:
  "columns_of empty_mapping_table = None
   \<and> returned (add_update_missing_values (sample_env (Inl EntityNotFoundException) WriteOk)
                 ''sales'' ''orders'' empty_mapping_table) = Inr (PDict [])"
  by code_simp

section \<open>Properties of the analysis and of the snapshot document\<close>

lemma dict_get_append:
  "dict_get (d @ e) k = (case dict_get d k of Some v \<Rightarrow> Some v | None \<Rightarrow> dict_get e k)"
  by (induction d) auto

lemma dict_set_fresh: "dict_get d k = None \<Longrightarrow> dict_set d k v = d @ [(k, v)]"
  by (induction d) (auto split: if_splits)

lemma dict_get_named:
  "dict_get (map (\<lambda>c. (KStr (f c), g c)) cs) (KStr n) = map_option g (find (\<lambda>c. f c = n) cs)"
  by (induction cs) auto

lemma find_distinct:
  "distinct (map f cs) \<Longrightarrow> c \<in> set cs \<Longrightarrow> find (\<lambda>c'. f c' = f c) cs = Some c"
  by (induction cs) (auto simp add: rev_image_eqI)

lemma dict_get_named_member:
  "distinct (map f cs) \<Longrightarrow> c \<in> set cs \<Longrightarrow>
   dict_get (map (\<lambda>c. (KStr (f c), g c)) cs) (KStr (f c)) = Some (g c)"
  by (simp add: dict_get_named find_distinct)

lemma dict_get_named_other:
  "n \<notin> f ` set cs \<Longrightarrow> dict_get (map (\<lambda>c. (KStr (f c), g c)) cs) (KStr n) = None"
  by (induction cs) auto

lemma dict_get_named_key:
  "dict_get (map (\<lambda>c. (KStr (f c), g c)) cs) k = Some v \<Longrightarrow> \<exists>c\<in>set cs. k = KStr (f c)"
  by (induction cs) (auto split: if_splits elim: key_eq.elims)

lemma py_eq_str [simp]: "py_eq (PStr n) v = (v = PStr n)" "py_eq v (PStr n) = (v = PStr n)"
  by (cases v; auto)+

lemma wf_current_comment:
  "wf_column c \<Longrightarrow> (current_comment c = '''') = undocumented c"
  by (auto simp add: wf_column_def current_comment_def undocumented_def strip_def
        split: option.splits pyval.splits)

lemma snapshot_columns_result:
  assumes "list_all wf_column cols" and "distinct (map name_of cols)"
    and "\<forall>c\<in>set cols. dict_get dv0 (KStr (name_of c)) = None \<and> dict_get mc0 (KStr (name_of c)) = None"
    and "snapshot_columns mv cols dv0 mc0 = Inr (dv, mc)"
  shows "dv = dv0 @ map (\<lambda>c. (KStr (name_of c), PStr (current_comment c))) cols
       \<and> mc = mc0 @ map (\<lambda>c. (KStr (name_of c), PStr ''default comment missing''))
                       (filter (\<lambda>c. py_in (PStr (name_of c)) mv = Inr True \<and> undocumented c) cols)"
  using assms
proof (induction cols arbitrary: dv0 mc0)
  case Nil
  then show ?case by simp
next
  case (Cons c cols)
  from Cons.prems(1) have wf: "wf_column c" by simp
  from wf_column_comment [OF wf] obtain v where
    v: "py_get c ''Comment'' PNone = Inr v" "is_blank v = Inr (undocumented c)"
       "\<not> undocumented c \<longrightarrow> v = PStr (current_comment c)" by blast
  have n: "py_get c ''Name'' PNone = Inr (PStr (name_of c))"
    using wf_column_name(2) [OF wf] .
  have cc: "(if undocumented c then PStr '''' else v) = PStr (current_comment c)"
    using v(3) wf_current_comment [OF wf] by auto
  from Cons.prems(3) have fresh: "dict_get dv0 (KStr (name_of c)) = None"
    "dict_get mc0 (KStr (name_of c)) = None" by simp_all
  let ?dv1 = "dv0 @ [(KStr (name_of c), PStr (current_comment c))]"
  have set_dv: "py_setitem dv0 (PStr (name_of c)) (if undocumented c then PStr '''' else v)
                  = Inr ?dv1"
    by (simp add: py_setitem_def cc dict_set_fresh [OF fresh(1)])
  have rest_fresh: "\<forall>c'\<in>set cols. name_of c' \<noteq> name_of c"
    using Cons.prems(2) by (metis distinct.simps(2) image_eqI list.simps(9) set_map)
  obtain listed where l: "py_in (PStr (name_of c)) mv = Inr listed"
    using Cons.prems(4) v n set_dv by (auto split: sum.splits)
  show ?case
  proof (cases "listed \<and> undocumented c")
    case True
    let ?mc1 = "mc0 @ [(KStr (name_of c), PStr ''default comment missing'')]"
    have set_mc: "py_setitem mc0 (PStr (name_of c)) (PStr ''default comment missing'') = Inr ?mc1"
      by (simp add: py_setitem_def dict_set_fresh [OF fresh(2)])
    from Cons.prems(4) v n set_dv l True set_mc
    have r: "snapshot_columns mv cols ?dv1 ?mc1 = Inr (dv, mc)" by simp
    have f: "\<forall>c'\<in>set cols. dict_get ?dv1 (KStr (name_of c')) = None
                \<and> dict_get ?mc1 (KStr (name_of c')) = None"
      using Cons.prems(3) rest_fresh by (auto simp add: dict_get_append)
    from Cons.IH [OF _ _ f r] Cons.prems(1,2) l True show ?thesis by simp
  next
    case False
    from Cons.prems(4) v n set_dv l False
    have r: "snapshot_columns mv cols ?dv1 mc0 = Inr (dv, mc)" by auto
    have f: "\<forall>c'\<in>set cols. dict_get ?dv1 (KStr (name_of c')) = None
                \<and> dict_get mc0 (KStr (name_of c')) = None"
      using Cons.prems(3) rest_fresh by (auto simp add: dict_get_append)
    from Cons.IH [OF _ _ f r] Cons.prems(1,2) l False show ?thesis by auto
  qed
qed

lemma snapshot_columns_list:
  assumes "list_all wf_column cols"
  shows "\<exists>r. snapshot_columns (PList xs) cols dv0 mc0 = Inr r"
  using assms
proof (induction cols arbitrary: dv0 mc0)
  case Nil
  then show ?case by simp
next
  case (Cons c cols)
  from Cons.prems have wf: "wf_column c" by simp
  from wf_column_comment [OF wf] obtain v where
    v: "py_get c ''Comment'' PNone = Inr v" "is_blank v = Inr (undocumented c)" by blast
  have n: "py_get c ''Name'' PNone = Inr (PStr (name_of c))"
    using wf_column_name(2) [OF wf] .
  from Cons.IH Cons.prems v n show ?case
    by (simp add: py_setitem_def py_in_def)
qed

lemma add_untagged_wf:
  assumes "\<forall>c\<in>set rest. dict_get dv (KStr (name_of c)) = Some (PStr (current_comment c))"
    and "\<forall>c\<in>set rest. dict_mem mc (KStr (name_of c)) = T c"
    and "distinct (map name_of rest)"
  shows "add_untagged dv (map (\<lambda>c. KStr (name_of c)) rest) mc
           = mc @ map (\<lambda>c. (KStr (name_of c), PStr ''''))
                      (filter (\<lambda>c. \<not> T c \<and> current_comment c = '''') rest)"
  using assms
proof (induction rest arbitrary: mc)
  case Nil
  then show ?case by simp
next
  case (Cons c rest)
  have rest_fresh: "\<forall>c'\<in>set rest. name_of c' \<noteq> name_of c"
    using Cons.prems(3) by (metis distinct.simps(2) image_eqI list.simps(9) set_map)
  show ?case
  proof (cases "\<not> T c \<and> current_comment c = ''''")
    case True
    with Cons.prems(2) have "dict_get mc (KStr (name_of c)) = None"
      by (simp add: dict_mem_def)
    then have s: "dict_set mc (KStr (name_of c)) (PStr '''') = mc @ [(KStr (name_of c), PStr '''')]"
      by (rule dict_set_fresh)
    have m: "\<forall>c'\<in>set rest. dict_mem (mc @ [(KStr (name_of c), PStr '''')]) (KStr (name_of c')) = T c'"
      using Cons.prems(2) rest_fresh
      by (auto simp add: dict_mem_def dict_get_append split: option.splits)
    from Cons.IH [OF _ m] Cons.prems True s show ?thesis
      by (simp add: dict_mem_def)
  next
    case False
    from Cons.IH [of mc] Cons.prems False show ?thesis
      by (auto simp add: dict_mem_def)
  qed
qed

lemma dict_mem_filtered:
  assumes "distinct (map f cs)" and "c \<in> set cs"
  shows "dict_mem (map (\<lambda>c. (KStr (f c), g c)) (filter T cs)) (KStr (f c)) = T c"
proof (cases "T c")
  case True
  with assms(2) have "c \<in> set (filter T cs)" by simp
  moreover have "distinct (map f (filter T cs))"
    using assms(1) by (rule distinct_map_filter)
  ultimately show ?thesis
    using True by (simp add: dict_mem_def dict_get_named_member)
next
  case False
  have "inj_on f (set cs)" using assms(1) by (simp add: distinct_map)
  with assms(2) False have "f c \<notin> f ` set (filter T cs)"
    by (auto simp add: inj_on_def)
  with False show ?thesis
    by (simp add: dict_mem_def dict_get_named_other)
qed

lemma snapshot_data_wf:
  assumes "columns_of metadata = Some cols" and "list_all wf_column cols"
    and "distinct (map name_of cols)"
    and "snapshot_data metadata mv = Inr (dv, mc)"
  shows "dv = map (\<lambda>c. (KStr (name_of c), PStr (current_comment c))) cols
       \<and> mc = map (\<lambda>c. (KStr (name_of c), PStr ''default comment missing''))
                  (filter (\<lambda>c. py_in (PStr (name_of c)) mv = Inr True \<and> undocumented c) cols)
              @ map (\<lambda>c. (KStr (name_of c), PStr ''''))
                  (filter (\<lambda>c. \<not> (py_in (PStr (name_of c)) mv = Inr True \<and> undocumented c)
                                 \<and> undocumented c) cols)"
proof -
  let ?T = "\<lambda>c. py_in (PStr (name_of c)) mv = Inr True \<and> undocumented c"
  let ?dv = "map (\<lambda>c. (KStr (name_of c), PStr (current_comment c))) cols"
  let ?mc = "map (\<lambda>c. (KStr (name_of c), PStr ''default comment missing'')) (filter ?T cols)"
  from columns_of_subscripts [OF assms(1)] obtain sd where
    g: "py_get metadata ''StorageDescriptor'' (PDict []) = Inr (PDict sd)"
       "py_get (PDict sd) ''Columns'' (PList []) = Inr (PList cols)" by blast
  have it: "py_iter (PList cols) = Inr cols" by (simp add: py_iter_def)
  from assms(4) g it obtain dv1 mc1 where
    sc: "snapshot_columns mv cols [] [] = Inr (dv1, mc1)"
    and r: "dv = dv1" "mc = add_untagged dv1 (map fst dv1) mc1"
    by (auto simp add: snapshot_data_def split: sum.splits)
  from snapshot_columns_result [OF assms(2) assms(3) _ sc]
  have d: "dv1 = ?dv" "mc1 = ?mc" by simp_all
  have k: "map fst ?dv = map (\<lambda>c. KStr (name_of c)) cols" by simp
  have a: "\<forall>c\<in>set cols. dict_get ?dv (KStr (name_of c)) = Some (PStr (current_comment c))"
    by (simp add: dict_get_named_member [OF assms(3)])
  have b: "\<forall>c\<in>set cols. dict_mem ?mc (KStr (name_of c)) = ?T c"
    by (simp add: dict_mem_filtered [OF assms(3)])
  have u: "filter (\<lambda>c. \<not> ?T c \<and> current_comment c = '''') cols
             = filter (\<lambda>c. \<not> ?T c \<and> undocumented c) cols"
    using assms(2) by (auto intro!: filter_cong simp add: list_all_iff wf_current_comment)
  from add_untagged_wf [OF a b assms(3)]
  have "add_untagged ?dv (map fst ?dv) ?mc
          = ?mc @ map (\<lambda>c. (KStr (name_of c), PStr ''''))
                      (filter (\<lambda>c. \<not> ?T c \<and> undocumented c) cols)"
    unfolding k u .
  with r d show ?thesis by simp
qed

lemma report_lookup:
  assumes "distinct (map name_of cols)" and "c \<in> set cols"
  shows "dict_get (map (\<lambda>c. (KStr (name_of c), PStr ''default comment missing''))
                     (filter (\<lambda>c. L c \<and> undocumented c) cols)
                   @ map (\<lambda>c. (KStr (name_of c), PStr ''''))
                       (filter (\<lambda>c. \<not> (L c \<and> undocumented c) \<and> undocumented c) cols))
           (KStr (name_of c))
         = (if undocumented c
            then Some (PStr (if L c then ''default comment missing'' else ''''))
            else None)"
  using dict_mem_filtered [OF assms, of "\<lambda>c. PStr ''default comment missing''"
          "\<lambda>c. L c \<and> undocumented c"]
        dict_mem_filtered [OF assms, of "\<lambda>c. PStr ''''"
          "\<lambda>c. \<not> (L c \<and> undocumented c) \<and> undocumented c"]
        dict_get_named [of name_of "\<lambda>c. PStr ''default comment missing''"
          "filter (\<lambda>c. L c \<and> undocumented c) cols" "name_of c"]
        dict_get_named [of name_of "\<lambda>c. PStr ''''"
          "filter (\<lambda>c. \<not> (L c \<and> undocumented c) \<and> undocumented c) cols" "name_of c"]
  by (auto simp add: dict_get_append dict_mem_def split: option.splits)

lemma report_keys:
  assumes "dict_mem (map (\<lambda>c. (KStr (name_of c), PStr ''default comment missing''))
                     (filter (\<lambda>c. L c \<and> undocumented c) cols)
                   @ map (\<lambda>c. (KStr (name_of c), PStr ''''))
                       (filter (\<lambda>c. \<not> (L c \<and> undocumented c) \<and> undocumented c) cols)) k"
  shows "\<exists>c\<in>set cols. undocumented c \<and> k = KStr (name_of c)"
  using assms
        dict_get_named_key [of name_of "\<lambda>c. PStr ''default comment missing''"
          "filter (\<lambda>c. L c \<and> undocumented c) cols" k]
        dict_get_named_key [of name_of "\<lambda>c. PStr ''''"
          "filter (\<lambda>c. \<not> (L c \<and> undocumented c) \<and> undocumented c) cols" k]
  by (auto simp add: dict_get_append dict_mem_def split: option.splits)

lemma to_key_of_key: "to_key (of_key k) = Some k"
  by (cases k) auto

lemma key_eq_str: "key_eq (KStr n) k = (k = KStr n)"
  by (cases k) auto

lemma listed_null_field:
  "py_in (PStr n) (PList (map (\<lambda>(k, v). of_key k) (filter (\<lambda>(k, v). v = PNone) entries)))
     = Inr ((KStr n, PNone) \<in> set entries)"
  by (auto simp add: py_in_def list_ex_iff to_key_of_key key_eq_str)

text \<open>
  Claim C1. For every metadata document whose columns are well formed (each a dictionary
  with a string name, unique in the table, and a comment that is absent, null or a
  string), the report of the analysis holds a column under the tag
  \<^verbatim>\<open>"default comment missing"\<close> exactly when the column is undocumented and its name is a
  top-level field of the document whose value is null; every other undocumented column
  is in the report with the tag \<^verbatim>\<open>""\<close>; and the report has no entry for a documented
  column, nor any entry that is not the name of an undocumented column.
\<close>

theorem analyzer_report:
  assumes "columns_of metadata = Some cols" and "list_all wf_column cols"
    and "distinct (map name_of cols)"
  shows "\<exists>report. analyze metadata = Inr report
       \<and> (\<forall>c\<in>set cols.
            dict_get report (KStr (name_of c))
              = (if undocumented c
                 then Some (PStr (if is_null_field metadata (name_of c)
                                  then ''default comment missing'' else ''''))
                 else None))
       \<and> (\<forall>k. dict_mem report k \<longrightarrow> (\<exists>c\<in>set cols. undocumented c \<and> k = KStr (name_of c)))"
proof -
  from assms(1) obtain entries where m: "metadata = PDict entries"
    by (cases metadata) (simp_all add: columns_of_def)
  let ?mv = "PList (map (\<lambda>(k, v). of_key k) (filter (\<lambda>(k, v). v = PNone) entries))"
  have nf: "null_fields metadata = Inr ?mv" using m by (simp add: null_fields_dict)
  from columns_of_subscripts [OF assms(1)] obtain sd where
    g: "py_get metadata ''StorageDescriptor'' (PDict []) = Inr (PDict sd)"
       "py_get (PDict sd) ''Columns'' (PList []) = Inr (PList cols)" by blast
  from snapshot_columns_list [OF assms(2)]
  obtain r where "snapshot_columns ?mv cols [] [] = Inr r" by blast
  with g obtain dv mc where sd: "snapshot_data metadata ?mv = Inr (dv, mc)"
    by (cases r) (simp add: snapshot_data_def py_iter_def)
  let ?L = "\<lambda>c. is_null_field metadata (name_of c)"
  have l: "\<And>c. (py_in (PStr (name_of c)) ?mv = Inr True) = ?L c"
    using m by (simp add: listed_null_field is_null_field_def)
  from snapshot_data_wf [OF assms sd]
  have mc: "mc = map (\<lambda>c. (KStr (name_of c), PStr ''default comment missing''))
                  (filter (\<lambda>c. ?L c \<and> undocumented c) cols)
              @ map (\<lambda>c. (KStr (name_of c), PStr ''''))
                  (filter (\<lambda>c. \<not> (?L c \<and> undocumented c) \<and> undocumented c) cols)"
    by (simp add: l)
  have "analyze metadata = Inr mc" using nf sd by (simp add: analyze_def)
  moreover have "\<forall>c\<in>set cols.
            dict_get mc (KStr (name_of c))
              = (if undocumented c
                 then Some (PStr (if ?L c then ''default comment missing'' else ''''))
                 else None)"
    using report_lookup [OF assms(3), of _ ?L] mc by blast
  moreover have "\<forall>k. dict_mem mc k \<longrightarrow> (\<exists>c\<in>set cols. undocumented c \<and> k = KStr (name_of c))"
    using report_keys [of ?L cols] mc by blast
  ultimately show ?thesis by blast
qed

text \<open>Scenario A: \<open>id\<close> is documented, \<open>ts\<close> is blank and a null field, \<open>qty\<close> has no comment.\<close>

theorem analyzer_report_witness:
  "columns_of scenario_a
     = Some [column ''id'' (PStr ''primary key''), column ''ts'' (PStr ''''),
             PDict [(KStr ''Name'', PStr ''qty'')]]
   \<and> list_all wf_column [column ''id'' (PStr ''primary key''), column ''ts'' (PStr ''''),
                          PDict [(KStr ''Name'', PStr ''qty'')]]
   \<and> distinct (map name_of [column ''id'' (PStr ''primary key''), column ''ts'' (PStr ''''),
                             PDict [(KStr ''Name'', PStr ''qty'')]])
   \<and> (\<exists>report. analyze scenario_a = Inr report
         \<and> dict_get report (KStr ''id'') = None
         \<and> dict_get report (KStr ''ts'') = Some (PStr ''default comment missing'')
         \<and> dict_get report (KStr ''qty'') = Some (PStr ''''))"
proof -
  let ?id = "column ''id'' (PStr ''primary key'')"
  let ?ts = "column ''ts'' (PStr '''')"
  let ?qty = "PDict [(KStr ''Name'', PStr ''qty'')]"
  have a: "columns_of scenario_a = Some [?id, ?ts, ?qty]" by code_simp
  have b: "list_all wf_column [?id, ?ts, ?qty]" by code_simp
  have c: "distinct (map name_of [?id, ?ts, ?qty])" by code_simp
  have n: "name_of ?id = ''id''" "name_of ?ts = ''ts''" "name_of ?qty = ''qty''"
    by code_simp+
  have u: "\<not> undocumented ?id" "undocumented ?ts" "undocumented ?qty"
    by code_simp+
  have z: "is_null_field scenario_a ''ts''" "\<not> is_null_field scenario_a ''qty''"
    by code_simp+
  from analyzer_report [OF a b c] obtain report where
    r: "analyze scenario_a = Inr report"
    and l: "\<forall>c\<in>set [?id, ?ts, ?qty].
              dict_get report (KStr (name_of c))
                = (if undocumented c
                   then Some (PStr (if is_null_field scenario_a (name_of c)
                                    then ''default comment missing'' else ''''))
                   else None)"
    by blast
  from l n u z have "dict_get report (KStr ''id'') = None
         \<and> dict_get report (KStr ''ts'') = Some (PStr ''default comment missing'')
         \<and> dict_get report (KStr ''qty'') = Some (PStr '''')"
    by simp
  with r a b c show ?thesis by blast
qed

lemma write_body_written:
  assumes "FileWritten f doc \<in> set (snd (write_body E metadata missing_values output_file))"
  shows "f = output_file
       \<and> (\<exists>r. snapshot_data metadata missing_values = Inr r
               \<and> json_dump (snapshot_document r) = Inr doc)"
  using assms by (auto simp add: write_body_def split: sum.splits fs_outcome.splits)

lemma writer_written:
  "FileWritten f doc
     \<in> set (snd (write_metadata_and_missing_values E metadata missing_values output_file)) \<Longrightarrow>
   FileWritten f doc \<in> set (snd (write_body E metadata missing_values output_file))"
  by (auto simp add: write_metadata_and_missing_values_def split: prod.splits sum.splits)

lemma snapshot_document_json:
  "json_dump (snapshot_document r) = Inr doc \<Longrightarrow>
   \<exists>dv mc. json_dump_items (fst r) = Inr dv \<and> json_dump_items (snd r) = Inr mc
          \<and> doc = JObj [(''default_values'', JObj dv), (''missing_columns'', JObj mc)]"
  by (auto simp add: snapshot_document_def json_key_def split: sum.splits)

lemma json_dump_items_named:
  "json_dump_items (map (\<lambda>c. (KStr (f c), PStr (g c))) cs)
     = Inr (map (\<lambda>c. (f c, JStr (g c))) cs)"
  by (induction cs) (simp_all add: json_key_def)

lemma json_dump_items_append:
  "json_dump_items d = Inr a \<Longrightarrow> json_dump_items e = Inr b \<Longrightarrow>
   json_dump_items (d @ e) = Inr (a @ b)"
  by (induction d arbitrary: a) (auto split: sum.splits)

lemma snapshot_written_wf:
  assumes "columns_of metadata = Some cols" and "list_all wf_column cols"
    and "distinct (map name_of cols)"
    and "open_write E output_file = WriteOk"
  shows "\<exists>doc. FileWritten output_file doc
                 \<in> set (snd (write_metadata_and_missing_values E metadata (PList xs) output_file))"
proof -
  from columns_of_subscripts [OF assms(1)] obtain sd where
    g: "py_get metadata ''StorageDescriptor'' (PDict []) = Inr (PDict sd)"
       "py_get (PDict sd) ''Columns'' (PList []) = Inr (PList cols)" by blast
  from snapshot_columns_list [OF assms(2)]
  obtain r where "snapshot_columns (PList xs) cols [] [] = Inr r" by blast
  with g obtain dv mc where sd: "snapshot_data metadata (PList xs) = Inr (dv, mc)"
    by (cases r) (simp add: snapshot_data_def py_iter_def)
  from snapshot_data_wf [OF assms(1) assms(2) assms(3) sd]
  obtain t u where
    dv: "dv = map (\<lambda>c. (KStr (name_of c), PStr (current_comment c))) cols"
    and mc: "mc = map (\<lambda>c. (KStr (name_of c), PStr ''default comment missing'')) t
                  @ map (\<lambda>c. (KStr (name_of c), PStr '''')) u"
    by blast
  have "\<exists>j. json_dump_items dv = Inr j"
    by (simp add: dv json_dump_items_named)
  moreover have "\<exists>j. json_dump_items mc = Inr j"
    using json_dump_items_append
            [OF json_dump_items_named [of name_of "\<lambda>c. ''default comment missing''" t]
                json_dump_items_named [of name_of "\<lambda>c. ''''" u]]
    by (simp add: mc)
  ultimately obtain doc where "json_dump (snapshot_document (dv, mc)) = Inr doc"
    by (auto simp add: snapshot_document_def json_key_def)
  with sd assms(4) show ?thesis
    by (auto simp add: write_metadata_and_missing_values_def write_body_def)
qed

text \<open>
  Claim C7. Every snapshot document that \<open>write_metadata_and_missing_values\<close> writes goes
  to the output file and is a JSON object of exactly the two keys \<open>default_values\<close> and
  \<open>missing_columns\<close>, in that order, each a JSON object; when the columns of the
  metadata document are well formed, \<open>default_values\<close> maps every column name, in the
  order of the columns, to the current comment of the column, \<^verbatim>\<open>""\<close> when the comment is
  absent, null or blank. Such a document is written whenever the columns are well
  formed, the missing values are a list and the file can be written.
\<close>

theorem snapshot_document_shape:
  "(\<forall>f doc. FileWritten f doc
              \<in> set (snd (write_metadata_and_missing_values E metadata missing_values output_file))
      \<longrightarrow> f = output_file
          \<and> (\<exists>dv mc. doc = JObj [(''default_values'', JObj dv), (''missing_columns'', JObj mc)]
                \<and> (\<forall>cols. columns_of metadata = Some cols \<and> list_all wf_column cols
                            \<and> distinct (map name_of cols)
                      \<longrightarrow> dv = map (\<lambda>c. (name_of c, JStr (current_comment c))) cols)))
   \<and> (\<forall>cols xs. columns_of metadata = Some cols \<and> list_all wf_column cols
                  \<and> distinct (map name_of cols) \<and> missing_values = PList xs
                  \<and> open_write E output_file = WriteOk
        \<longrightarrow> (\<exists>doc. FileWritten output_file doc
                      \<in> set (snd (write_metadata_and_missing_values E metadata missing_values
                                     output_file))))"
proof (intro conjI allI impI)
  fix f doc
  assume w: "FileWritten f doc
              \<in> set (snd (write_metadata_and_missing_values E metadata missing_values output_file))"
  from write_body_written [OF writer_written [OF w]] obtain r where
    f: "f = output_file" and sd: "snapshot_data metadata missing_values = Inr r"
    and j: "json_dump (snapshot_document r) = Inr doc" by blast
  from f show "f = output_file" .
  from snapshot_document_json [OF j] obtain dv mc where
    dv: "json_dump_items (fst r) = Inr dv"
    and doc: "doc = JObj [(''default_values'', JObj dv), (''missing_columns'', JObj mc)]"
    by blast
  have "\<forall>cols. columns_of metadata = Some cols \<and> list_all wf_column cols
                 \<and> distinct (map name_of cols)
          \<longrightarrow> dv = map (\<lambda>c. (name_of c, JStr (current_comment c))) cols"
  proof (intro allI impI)
    fix cols
    assume h: "columns_of metadata = Some cols \<and> list_all wf_column cols
                 \<and> distinct (map name_of cols)"
    obtain a b where r: "r = (a, b)" by (cases r)
    from h sd r snapshot_data_wf [of metadata cols missing_values a b]
    have "a = map (\<lambda>c. (KStr (name_of c), PStr (current_comment c))) cols" by blast
    with dv r show "dv = map (\<lambda>c. (name_of c, JStr (current_comment c))) cols"
      by (simp add: json_dump_items_named)
  qed
  with doc show "\<exists>dv mc. doc = JObj [(''default_values'', JObj dv), (''missing_columns'', JObj mc)]
                \<and> (\<forall>cols. columns_of metadata = Some cols \<and> list_all wf_column cols
                            \<and> distinct (map name_of cols)
                      \<longrightarrow> dv = map (\<lambda>c. (name_of c, JStr (current_comment c))) cols)"
    by blast
next
  fix cols xs
  assume "columns_of metadata = Some cols \<and> list_all wf_column cols
                  \<and> distinct (map name_of cols) \<and> missing_values = PList xs
                  \<and> open_write E output_file = WriteOk"
  then show "\<exists>doc. FileWritten output_file doc
                      \<in> set (snd (write_metadata_and_missing_values E metadata missing_values
                                     output_file))"
    using snapshot_written_wf [of metadata cols E output_file xs] by blast
qed

text \<open>The snapshot of Scenario A with \<open>ts\<close> among the missing values.\<close>

theorem snapshot_document_shape_witness:
  "FileWritten ''default_metadata.json''
     (JObj [(''default_values'',
             JObj [(''id'', JStr ''primary key''), (''ts'', JStr ''''), (''qty'', JStr '''')]),
            (''missing_columns'',
             JObj [(''ts'', JStr ''default comment missing''), (''qty'', JStr '''')])])
     \<in> set (snd (write_metadata_and_missing_values
                   (sample_env (Inl EntityNotFoundException) WriteOk)
                   scenario_a (PList [PStr ''ts'']) ''default_metadata.json''))
   \<and> columns_of scenario_a
       = Some [column ''id'' (PStr ''primary key''), column ''ts'' (PStr ''''),
               PDict [(KStr ''Name'', PStr ''qty'')]]
   \<and> list_all wf_column [column ''id'' (PStr ''primary key''), column ''ts'' (PStr ''''),
                          PDict [(KStr ''Name'', PStr ''qty'')]]
   \<and> distinct (map name_of [column ''id'' (PStr ''primary key''), column ''ts'' (PStr ''''),
                             PDict [(KStr ''Name'', PStr ''qty'')]])
   \<and> open_write (sample_env (Inl EntityNotFoundException) WriteOk) ''default_metadata.json''
       = WriteOk
   \<and> map (\<lambda>c. (name_of c, JStr (current_comment c)))
         [column ''id'' (PStr ''primary key''), column ''ts'' (PStr ''''),
          PDict [(KStr ''Name'', PStr ''qty'')]]
       = [(''id'', JStr ''primary key''), (''ts'', JStr ''''), (''qty'', JStr '''')]
   \<and> (\<exists>doc. FileWritten ''default_metadata.json'' doc
               \<in> set (snd (write_metadata_and_missing_values
                             (sample_env (Inl EntityNotFoundException) WriteOk)
                             scenario_a (PList [PStr ''ts'']) ''default_metadata.json'')))"
proof -
  let ?E = "sample_env (Inl EntityNotFoundException) WriteOk"
  let ?cols = "[column ''id'' (PStr ''primary key''), column ''ts'' (PStr ''''),
                PDict [(KStr ''Name'', PStr ''qty'')]]"
  have a: "FileWritten ''default_metadata.json''
     (JObj [(''default_values'',
             JObj [(''id'', JStr ''primary key''), (''ts'', JStr ''''), (''qty'', JStr '''')]),
            (''missing_columns'',
             JObj [(''ts'', JStr ''default comment missing''), (''qty'', JStr '''')])])
     \<in> set (snd (write_metadata_and_missing_values ?E scenario_a (PList [PStr ''ts''])
                   ''default_metadata.json''))"
    by code_simp
  have b: "columns_of scenario_a = Some ?cols" by code_simp
  have c: "list_all wf_column ?cols" by code_simp
  have d: "distinct (map name_of ?cols)" by code_simp
  have e: "open_write ?E ''default_metadata.json'' = WriteOk" by code_simp
  have f: "map (\<lambda>c. (name_of c, JStr (current_comment c))) ?cols
             = [(''id'', JStr ''primary key''), (''ts'', JStr ''''), (''qty'', JStr '''')]"
    by code_simp
  from snapshot_document_shape
         [of ?E scenario_a "PList [PStr ''ts'']" "''default_metadata.json''"] a b c d e f
  show ?thesis by blast
qed

section \<open>Properties of the merge of the overrides\<close>

lemma key_eq_str_right: "key_eq k (KStr n) = (k = KStr n)"
  by (cases k) auto

lemma dict_get_set_str:
  "a \<noteq> b \<Longrightarrow> dict_get (dict_set d (KStr a) v) (KStr b) = dict_get d (KStr b)"
  by (induction d) (auto simp add: key_eq_str_right)

lemma dict_get_set_same: "dict_get (dict_set d (KStr a) v) (KStr a) = Some v"
  by (induction d) (auto simp add: key_eq_str_right)


lemma dict_set_same: "dict_get d (KStr a) = Some v \<Longrightarrow> dict_set d (KStr a) v = d"
  by (induction d) (auto simp add: key_eq_str_right split: if_splits)

lemma named_columnD:
  "named_column c \<Longrightarrow> \<exists>d. c = PDict d \<and> dict_get d (KStr ''Name'') = Some (PStr (name_of c))"
  by (auto simp add: named_column_def column_name_def name_of_def
        split: pyval.splits option.splits)

lemma wf_named: "wf_column c \<Longrightarrow> named_column c"
  by (auto simp add: wf_column_def named_column_def split: pyval.splits option.splits)

lemma put_comment_named:
  assumes "named_column c"
  shows "named_column (put_comment c v)" and "name_of (put_comment c v) = name_of c"
    and "column_comment (put_comment c v) = Some v"
proof -
  from named_columnD [OF assms] obtain d where
    d: "c = PDict d" "dict_get d (KStr ''Name'') = Some (PStr (name_of c))" by blast
  have n: "dict_get (dict_set d (KStr ''Comment'') v) (KStr ''Name'') = Some (PStr (name_of c))"
    using d(2) by (simp add: dict_get_set_str)
  from d n show "named_column (put_comment c v)"
    by (simp add: put_comment_def named_column_def column_name_def)
  from d n show "name_of (put_comment c v) = name_of c"
    by (simp add: put_comment_def name_of_def column_name_def)
  from d show "column_comment (put_comment c v) = Some v"
    by (simp add: put_comment_def column_comment_def dict_get_set_same)
qed


lemma named_subscript: "named_column c \<Longrightarrow> py_subscript c ''Name'' = Inr (PStr (name_of c))"
  using named_columnD [of c] by (auto simp add: py_subscript_def py_getitem_def)

lemma named_store: "named_column c \<Longrightarrow> py_store c ''Comment'' v = Inr (put_comment c v)"
  using named_columnD [of c] by (auto simp add: py_store_def put_comment_def)

lemma set_comment_named:
  "list_all named_column cols \<Longrightarrow>
   set_comment (KStr n) v cols
     = (map (\<lambda>c. if name_of c = n then put_comment c v else c) cols, None)"
  by (induction cols) (auto simp add: named_subscript named_store)

lemma apply_new_values_named:
  assumes "list_all named_column cols" and "distinct ns"
  shows "apply_new_values (PDict ov) (map (\<lambda>n. (KStr n, PStr '''')) ns) cols
           = (map (\<lambda>c. if name_of c \<in> set ns
                        then put_comment c (override_for ov (name_of c)) else c) cols, None)"
  using assms
proof (induction ns arbitrary: cols)
  case Nil
  then show ?case by simp
next
  case (Cons n ns)
  let ?cols1 = "map (\<lambda>c. if name_of c = n then put_comment c (override_for ov n) else c) cols"
  have i: "py_in (PStr n) (PDict ov) = Inr (dict_mem ov (KStr n))"
    by (simp add: py_in_def)
  have s: "set_comment (KStr n) (override_for ov n) cols = (?cols1, None)"
    using Cons.prems(1) by (rule set_comment_named)
  have n1: "list_all named_column ?cols1"
    using Cons.prems(1) by (auto simp add: list_all_iff put_comment_named)
  from Cons.prems(2) have d: "distinct ns" and fresh: "n \<notin> set ns" by simp_all
  have m: "map (\<lambda>c. if name_of c \<in> set ns
                     then put_comment c (override_for ov (name_of c)) else c) ?cols1
         = map (\<lambda>c. if name_of c \<in> set (n # ns)
                     then put_comment c (override_for ov (name_of c)) else c) cols"
    using Cons.prems(1) fresh by (auto simp add: list_all_iff put_comment_named)
  have "apply_new_values (PDict ov) ((KStr n, PStr '''') # map (\<lambda>n. (KStr n, PStr '''')) ns) cols
          = apply_new_values (PDict ov) (map (\<lambda>n. (KStr n, PStr '''')) ns) ?cols1"
  proof (cases "dict_mem ov (KStr n)")
    case True
    then have "py_getitem (PDict ov) (PStr n) = Inr (override_for ov n)"
      by (auto simp add: dict_mem_def py_getitem_def override_for_def split: option.splits)
    with True i s show ?thesis by simp
  next
    case False
    then have "override_for ov n = PStr ''''"
      by (auto simp add: dict_mem_def override_for_def split: option.splits)
    with s have "set_comment (KStr n) (PStr '''') cols = (?cols1, None)" by simp
    with False i show ?thesis by simp
  qed
  with Cons.IH [OF n1 d] m show ?case by simp
qed

lemma blank_undocumented:
  "py_get (PDict d) ''Comment'' PNone = Inr comment \<Longrightarrow> is_blank comment = Inr blank \<Longrightarrow>
   blank = undocumented (PDict d)"
  by (auto simp add: py_get_def is_blank_def undocumented_def column_comment_def
        split: option.splits pyval.splits)

lemma find_missing_named:
  assumes "list_all named_column cols" and "distinct (map name_of cols)"
    and "\<forall>c\<in>set cols. dict_get m0 (KStr (name_of c)) = None"
    and "find_missing cols m0 = Inr m"
  shows "m = m0 @ map (\<lambda>c. (KStr (name_of c), PStr '''')) (filter undocumented cols)"
  using assms
proof (induction cols arbitrary: m0)
  case Nil
  then show ?case by simp
next
  case (Cons c cols)
  from Cons.prems(1) have nc: "named_column c" by simp
  from named_columnD [OF nc] obtain d where d: "c = PDict d" by blast
  from Cons.prems(4) obtain comment blank where
    g: "py_get c ''Comment'' PNone = Inr comment" and b: "is_blank comment = Inr blank"
    by (auto split: sum.splits)
  from blank_undocumented g b d have u: "blank = undocumented c" by blast
  have rest_fresh: "\<forall>c'\<in>set cols. name_of c' \<noteq> name_of c"
    using Cons.prems(2) by (metis distinct.simps(2) image_eqI list.simps(9) set_map)
  show ?case
  proof (cases blank)
    case True
    from Cons.prems(3) have "dict_get m0 (KStr (name_of c)) = None" by simp
    then have s: "py_setitem m0 (PStr (name_of c)) (PStr '''')
                    = Inr (m0 @ [(KStr (name_of c), PStr '''')])"
      by (simp add: py_setitem_def dict_set_fresh)
    from Cons.prems(4) g b True named_subscript [OF nc] s
    have r: "find_missing cols (m0 @ [(KStr (name_of c), PStr '''')]) = Inr m" by simp
    have f: "\<forall>c'\<in>set cols. dict_get (m0 @ [(KStr (name_of c), PStr '''')]) (KStr (name_of c')) = None"
      using Cons.prems(3) rest_fresh by (auto simp add: dict_get_append)
    from Cons.IH [OF _ _ f r] Cons.prems(1,2) True u show ?thesis by simp
  next
    case False
    from Cons.prems(4) g b False have r: "find_missing cols m0 = Inr m" by simp
    from Cons.IH [OF _ _ _ r] Cons.prems(1,2,3) False u show ?thesis by simp
  qed
qed

lemma find_missing_wf:
  "list_all wf_column cols \<Longrightarrow> \<exists>m. find_missing cols m0 = Inr m"
proof (induction cols arbitrary: m0)
  case Nil
  show ?case by simp
next
  case (Cons c cols)
  then have wf: "wf_column c" by simp
  from wf_column_comment [OF wf] obtain v where
    "py_get c ''Comment'' PNone = Inr v" "is_blank v = Inr (undocumented c)" by blast
  with Cons wf_column_name(1) [OF wf] show ?case
    by (simp add: py_setitem_def)
qed

lemma with_columns_columns:
  "columns_of metadata = Some cols \<Longrightarrow> columns_of (with_columns metadata cols') = Some cols'"
  by (auto simp add: columns_of_def with_columns_def dict_get_set_same
        split: pyval.splits option.splits)

lemma with_columns_same:
  "columns_of metadata = Some cols \<Longrightarrow> with_columns metadata cols = metadata"
  by (auto simp add: columns_of_def with_columns_def dict_set_same
        split: pyval.splits option.splits)




lemma merge_document_named:
  assumes c: "columns_of metadata = Some cols" and n: "list_all named_column cols"
    and d: "distinct (map name_of cols)"
    and l: "load_json E ''new_values.json'' = Inr (PDict ov)"
    and f: "find_missing cols [] = Inr m"
  shows "document (add_update_missing_values E database_name table_name metadata)
           = with_columns metadata (map (merge_column ov) cols)"
proof -
  from columns_of_subscripts [OF c] obtain sd where
    p: "py_subscript metadata ''StorageDescriptor'' = Inr (PDict sd)"
       "py_subscript (PDict sd) ''Columns'' = Inr (PList cols)" by blast
  have it: "py_iter (PList cols) = Inr cols" by (simp add: py_iter_def)
  from find_missing_named [OF n d _ f]
  have m: "m = map (\<lambda>c. (KStr (name_of c), PStr '''')) (filter undocumented cols)" by simp
  show ?thesis
  proof (cases "filter undocumented cols = []")
    case True
    then have e: "m = []" using m by simp
    from True have "\<forall>c\<in>set cols. \<not> undocumented c" by (simp add: filter_empty_conv)
    then have "map (merge_column ov) cols = cols"
      by (simp add: merge_column_def map_idI)
    with e p it f with_columns_same [OF c] show ?thesis
      by (simp add: add_update_missing_values_def Let_def)
  next
    case False
    let ?ns = "map name_of (filter undocumented cols)"
    have mm: "m = map (\<lambda>n. (KStr n, PStr '''')) ?ns" using m by (simp add: comp_def)
    have dn: "distinct ?ns" using d by (rule distinct_map_filter)
    have inj: "inj_on name_of (set cols)" using d by (simp add: distinct_map)
    have mem: "\<forall>c\<in>set cols. (name_of c \<in> set ?ns) = undocumented c"
      using inj by (auto simp add: inj_on_def)
    have "map (\<lambda>c. if name_of c \<in> set ?ns
                    then put_comment c (override_for ov (name_of c)) else c) cols
            = map (merge_column ov) cols"
      using mem by (simp add: merge_column_def)
    with apply_new_values_named [OF n dn, of ov] mm
    have a: "apply_new_values (PDict ov) m cols = (map (merge_column ov) cols, None)" by simp
    have "m \<noteq> []" using False m by simp
    with p it f l a show ?thesis
      by (simp add: add_update_missing_values_def Let_def split: sum.splits option.splits)
  qed
qed

lemma merge_document_wf:
  assumes "columns_of metadata = Some cols" and "list_all wf_column cols"
    and "distinct (map name_of cols)"
    and "load_json E ''new_values.json'' = Inr (PDict ov)"
  shows "document (add_update_missing_values E database_name table_name metadata)
           = with_columns metadata (map (merge_column ov) cols)"
proof -
  from find_missing_wf [OF assms(2)] obtain m where m: "find_missing cols [] = Inr m" by blast
  have "list_all named_column cols"
    using assms(2) by (auto simp add: list_all_iff wf_named)
  from merge_document_named [OF assms(1) this assms(3) assms(4) m] show ?thesis .
qed


text \<open>
  Claim C2. For every metadata document whose columns are well formed and every
  override mapping that \<^verbatim>\<open>new_values.json\<close> holds, the merge changes the document only
  under \<open>Columns\<close>, and the columns keep their number, their order and their names. A
  column that was undocumented gets as its comment the value that the mapping has for
  its name, and the empty string when the mapping has none, its other fields as they
  were; a column that was documented is left as it was.
\<close>

theorem merge_sets_undocumented_comments:
  assumes "columns_of metadata = Some cols" and "list_all wf_column cols"
    and "distinct (map name_of cols)"
    and "load_json E ''new_values.json'' = Inr (PDict overrides)"
  shows "\<exists>cols'. columns_of (document (add_update_missing_values E database_name table_name metadata))
                   = Some cols'
       \<and> document (add_update_missing_values E database_name table_name metadata)
           = with_columns metadata cols'
       \<and> length cols' = length cols
       \<and> (\<forall>i<length cols.
            name_of (cols' ! i) = name_of (cols ! i)
            \<and> (undocumented (cols ! i) \<longrightarrow>
                 cols' ! i
                   = put_comment (cols ! i)
                       (case dict_get overrides (KStr (name_of (cols ! i))) of
                          Some v \<Rightarrow> v | None \<Rightarrow> PStr '''')
                 \<and> column_comment (cols' ! i)
                     = Some (case dict_get overrides (KStr (name_of (cols ! i))) of
                               Some v \<Rightarrow> v | None \<Rightarrow> PStr ''''))
            \<and> (\<not> undocumented (cols ! i) \<longrightarrow> cols' ! i = cols ! i))"
proof -
  let ?cols' = "map (merge_column overrides) cols"
  have d: "document (add_update_missing_values E database_name table_name metadata)
             = with_columns metadata ?cols'"
    using assms by (rule merge_document_wf)
  have c: "columns_of (with_columns metadata ?cols') = Some ?cols'"
    using assms(1) by (rule with_columns_columns)
  have "\<forall>i<length cols.
            name_of (?cols' ! i) = name_of (cols ! i)
            \<and> (undocumented (cols ! i) \<longrightarrow>
                 ?cols' ! i
                   = put_comment (cols ! i)
                       (case dict_get overrides (KStr (name_of (cols ! i))) of
                          Some v \<Rightarrow> v | None \<Rightarrow> PStr '''')
                 \<and> column_comment (?cols' ! i)
                     = Some (case dict_get overrides (KStr (name_of (cols ! i))) of
                               Some v \<Rightarrow> v | None \<Rightarrow> PStr ''''))
            \<and> (\<not> undocumented (cols ! i) \<longrightarrow> ?cols' ! i = cols ! i)"
  proof (intro allI impI)
    fix i assume i: "i < length cols"
    then have "wf_column (cols ! i)" using assms(2) by (simp add: list_all_length)
    then have n: "named_column (cols ! i)" by (rule wf_named)
    from i put_comment_named [OF n] show "name_of (?cols' ! i) = name_of (cols ! i)
            \<and> (undocumented (cols ! i) \<longrightarrow>
                 ?cols' ! i
                   = put_comment (cols ! i)
                       (case dict_get overrides (KStr (name_of (cols ! i))) of
                          Some v \<Rightarrow> v | None \<Rightarrow> PStr '''')
                 \<and> column_comment (?cols' ! i)
                     = Some (case dict_get overrides (KStr (name_of (cols ! i))) of
                               Some v \<Rightarrow> v | None \<Rightarrow> PStr ''''))
            \<and> (\<not> undocumented (cols ! i) \<longrightarrow> ?cols' ! i = cols ! i)"
      by (simp add: merge_column_def override_for_def)
  qed
  with d c show ?thesis by auto
qed

text \<open>Scenario A merged with the override of Scenario B: \<open>ts\<close> has one, \<open>qty\<close> has none.\<close>

theorem merge_sets_undocumented_comments_witness:
  "columns_of scenario_a
     = Some [column ''id'' (PStr ''primary key''), column ''ts'' (PStr ''''),
             PDict [(KStr ''Name'', PStr ''qty'')]]
   \<and> list_all wf_column [column ''id'' (PStr ''primary key''), column ''ts'' (PStr ''''),
                          PDict [(KStr ''Name'', PStr ''qty'')]]
   \<and> distinct (map name_of [column ''id'' (PStr ''primary key''), column ''ts'' (PStr ''''),
                             PDict [(KStr ''Name'', PStr ''qty'')]])
   \<and> load_json (sample_env (Inl EntityNotFoundException) WriteOk) ''new_values.json''
       = Inr (PDict [(KStr ''ts'', PStr ''event timestamp'')])
   \<and> columns_of (document (add_update_missing_values
                              (sample_env (Inl EntityNotFoundException) WriteOk)
                              ''sales'' ''orders'' scenario_a))
       = Some [column ''id'' (PStr ''primary key''), column ''ts'' (PStr ''event timestamp''),
               PDict [(KStr ''Name'', PStr ''qty''), (KStr ''Comment'', PStr '''')]]"
proof -
  let ?E = "sample_env (Inl EntityNotFoundException) WriteOk"
  let ?id = "column ''id'' (PStr ''primary key'')"
  let ?ts = "column ''ts'' (PStr '''')"
  let ?qty = "PDict [(KStr ''Name'', PStr ''qty'')]"
  let ?ov = "[(KStr ''ts'', PStr ''event timestamp'')]"
  have a: "columns_of scenario_a = Some [?id, ?ts, ?qty]" by code_simp
  have b: "list_all wf_column [?id, ?ts, ?qty]" by code_simp
  have c: "distinct (map name_of [?id, ?ts, ?qty])" by code_simp
  have d: "load_json ?E ''new_values.json'' = Inr (PDict ?ov)" by code_simp
  have u: "\<not> undocumented ?id" "undocumented ?ts" "undocumented ?qty" by code_simp+
  have p: "put_comment ?ts (case dict_get ?ov (KStr (name_of ?ts)) of
                              Some v \<Rightarrow> v | None \<Rightarrow> PStr '''')
             = column ''ts'' (PStr ''event timestamp'')"
          "put_comment ?qty (case dict_get ?ov (KStr (name_of ?qty)) of
                               Some v \<Rightarrow> v | None \<Rightarrow> PStr '''')
             = PDict [(KStr ''Name'', PStr ''qty''), (KStr ''Comment'', PStr '''')]"
    by code_simp+
  from merge_sets_undocumented_comments [OF a b c d, of "''sales''" "''orders''"]
  obtain cols' where
    r: "columns_of (document (add_update_missing_values ?E ''sales'' ''orders'' scenario_a))
          = Some cols'"
    and len: "length cols' = length [?id, ?ts, ?qty]"
    and e: "\<forall>i<length [?id, ?ts, ?qty].
              (undocumented ([?id, ?ts, ?qty] ! i) \<longrightarrow>
                 cols' ! i
                   = put_comment ([?id, ?ts, ?qty] ! i)
                       (case dict_get ?ov (KStr (name_of ([?id, ?ts, ?qty] ! i))) of
                          Some v \<Rightarrow> v | None \<Rightarrow> PStr ''''))
              \<and> (\<not> undocumented ([?id, ?ts, ?qty] ! i) \<longrightarrow> cols' ! i = [?id, ?ts, ?qty] ! i)"
    by blast
  from e [rule_format, of 0] u have 0: "cols' ! 0 = ?id" by simp
  from e [rule_format, of 1] u p have 1: "cols' ! 1 = column ''ts'' (PStr ''event timestamp'')"
    by simp
  from e [rule_format, of 2] u p
  have 2: "cols' ! 2 = PDict [(KStr ''Name'', PStr ''qty''), (KStr ''Comment'', PStr '''')]"
    by simp
  from len 0 1 2
  have "cols' = [?id, column ''ts'' (PStr ''event timestamp''),
                 PDict [(KStr ''Name'', PStr ''qty''), (KStr ''Comment'', PStr '''')]]"
    by (auto simp add: list_eq_iff_nth_eq less_Suc_eq numeral_2_eq_2 numeral_3_eq_3)
  with r a b c d show ?thesis by simp
qed



end
